theory Spec2Isabelle
  imports Complex_Main "HOL-Library.Word"
begin

section \<open>Data model\<close>

text \<open>
  Mongo ObjectIds are opaque unique keys: natural numbers here. A JavaScript \<open>Date\<close> is its
  number of milliseconds since the epoch, an integer. A JavaScript \<open>Number\<close> that the
  request may supply (durations in minutes, cost, rating) is a real. A JavaScript string is
  its sequence of UTF-16 code units, which is what \<open>length\<close> counts and \<open>trim\<close> reads.
\<close>

type_synonym objectId = nat
type_synonym date = int
type_synonym jsString = "16 word list"

text \<open>A string literal of the source, all of whose characters are ASCII.\<close>

definition utf16 :: "string \<Rightarrow> jsString" where
  "utf16 s = map of_char s"

datatype role = Customer | Admin | Technician

datatype availability = Available | Busy | Offline

datatype status = Scheduled | InProgress | Completed | Canceled | NoShow

datatype serviceType =
  Consultation | Repair | Installation | Maintenance | Troubleshooting | Emergency

datatype priority = Low | Medium | High | Urgent

text \<open>The fields of \<open>models/user.js\<close> that the appointment routes read.\<close>

record user =
  user_id :: objectId
  role :: role
  isActive :: bool
  availability :: availability

record location =
  address :: jsString
  city :: jsString
  state :: jsString
  zipCode :: jsString
  lat :: "real option"
  lng :: "real option"

text \<open>
  The paths of \<open>appointmentSchema\<close>. The schema is strict, so a path it does not declare is
  never stored.
\<close>

record appointment =
  appt_id :: objectId
  client :: objectId
  technician :: objectId
  startTime :: date
  endTime :: date
  status :: status
  appt_notes :: "jsString option"   \<comment> \<open>the field \<open>notes\<close>\<close>
  serviceType :: serviceType
  priority :: priority
  estimatedDuration :: "real option"
  actualDuration :: "real option"
  cost :: "real option"
  location :: "location option"
  cancellationReason :: "jsString option"
  completionNotes :: "jsString option"
  rating :: "real option"
  feedback :: "jsString option"

text \<open>The two collections the routes read and write.\<close>

record store =
  users :: "user list"
  appointments :: "appointment list"

text \<open>\<open>req.user\<close>, as the authentication middleware sets it.\<close>

record actor =
  userId :: objectId
  actor_role :: role

text \<open>
  Every way a request ends without its success response. The spec's failure names are kept;
  the comment gives the response or the thrown message of the source.
\<close>

datatype error =
    ValidationError            \<comment> \<open>400 "Validation error" (Joi, \<open>validateRequest\<close>)\<close>
  | InsufficientPermissions    \<comment> \<open>403 from \<open>authorize\<close>\<close>
  | NotFound                   \<comment> \<open>404 "Appointment not found"\<close>
  | AccessDenied               \<comment> \<open>403 "Access denied"\<close>
  | ImmutableState             \<comment> \<open>400 "Cannot modify completed or canceled appointments"\<close>
  | StartTimeInPast            \<comment> \<open>400 "Start time must be in the future"\<close>
  | TechnicianNotFound         \<comment> \<open>"Technician not found or inactive" / 404\<close>
  | TechnicianUnavailable      \<comment> \<open>"Technician is not available"\<close>
  | SchedulingConflict date date  \<comment> \<open>"Technician has a conflicting appointment from .. to .."\<close>
  | AlreadyCanceled            \<comment> \<open>400 "Appointment is already canceled"\<close>
  | CancellationWindowExpired  \<comment> \<open>400 "Appointments can only be canceled at least 24 hours in advance"\<close>
  | PersistenceValidation      \<comment> \<open>mongoose \<open>ValidationError\<close> raised by \<open>save()\<close>\<close>

section \<open>Conflict checker\<close>

text \<open>\<open>User.findOne({ _id: technicianId, role: "technician", isActive: true })\<close>\<close>

definition findTechnician :: "store \<Rightarrow> objectId \<Rightarrow> user option" where
  "findTechnician st technicianId =
     find (\<lambda>u. user_id u = technicianId \<and> role u = Technician \<and> isActive u) (users st)"

text \<open>
  The filter \<open>conflictQuery\<close> of \<open>checkTechnicianAvailability\<close>: same technician, status
  not in canceled/completed, \<open>startTime < endTime'\<close> and \<open>endTime > startTime'\<close> of the
  candidate, and \<open>_id \<noteq> excludeAppointmentId\<close> when one is given.
\<close>

definition conflictQuery ::
  "objectId \<Rightarrow> date \<Rightarrow> date \<Rightarrow> objectId option \<Rightarrow> appointment \<Rightarrow> bool" where
  "conflictQuery technicianId newStart newEnd excludeAppointmentId a \<longleftrightarrow>
     technician a = technicianId \<and>
     status a \<notin> {Canceled, Completed} \<and>
     (startTime a < newEnd \<and> endTime a > newStart) \<and>
     (case excludeAppointmentId of None \<Rightarrow> True | Some x \<Rightarrow> appt_id a \<noteq> x)"

definition checkTechnicianAvailability ::
  "store \<Rightarrow> objectId \<Rightarrow> date \<Rightarrow> date \<Rightarrow> objectId option \<Rightarrow> error + user" where
  "checkTechnicianAvailability st technicianId newStart newEnd excludeAppointmentId =
     (case findTechnician st technicianId of
        None \<Rightarrow> Inl TechnicianNotFound
      | Some tech \<Rightarrow>
          if availability tech \<noteq> Available then Inl TechnicianUnavailable
          else (case filter (conflictQuery technicianId newStart newEnd excludeAppointmentId)
                       (appointments st) of
                  [] \<Rightarrow> Inr tech
                | conflict # _ \<Rightarrow>
                    Inl (SchedulingConflict (startTime conflict) (endTime conflict))))"

section \<open>Request validation and persistence validation\<close>

text \<open>\<open>Joi.string().max(n)\<close> rejects the empty string unless \<open>.allow("")\<close> is given.\<close>

definition joiString :: "nat \<Rightarrow> jsString \<Rightarrow> bool" where
  "joiString n s \<longleftrightarrow> s \<noteq> [] \<and> length s \<le> n"

definition joiStringAllowEmpty :: "nat \<Rightarrow> jsString \<Rightarrow> bool" where
  "joiStringAllowEmpty n s \<longleftrightarrow> length s \<le> n"

definition joiNumber :: "real \<Rightarrow> real \<Rightarrow> real \<Rightarrow> bool" where
  "joiNumber lo hi x \<longleftrightarrow> lo \<le> x \<and> x \<le> hi"

definition whenGiven :: "('a \<Rightarrow> bool) \<Rightarrow> 'a option \<Rightarrow> bool" where
  "whenGiven P x = (case x of None \<Rightarrow> True | Some v \<Rightarrow> P v)"

definition locationSchema :: "location \<Rightarrow> bool" where
  "locationSchema l \<longleftrightarrow>
     address l \<noteq> [] \<and> city l \<noteq> [] \<and> state l \<noteq> [] \<and> zipCode l \<noteq> [] \<and>
     whenGiven (joiNumber (- 90) 90) (lat l) \<and> whenGiven (joiNumber (- 180) 180) (lng l)"

record createBody =
  c_technicianId :: objectId
  c_startTime :: date
  c_endTime :: date
  c_notes :: "jsString option"
  c_serviceType :: serviceType
  c_priority :: "priority option"
  c_estimatedDuration :: "real option"
  c_location :: "location option"

text \<open>
  \<open>createAppointmentSchema\<close>: \<open>startTime\<close> is \<open>min("now")\<close>, \<open>endTime\<close> is
  \<open>greater(Joi.ref("startTime"))\<close>, \<open>estimatedDuration\<close> is \<open>min(15).max(480)\<close>.
\<close>

definition createAppointmentSchema :: "date \<Rightarrow> createBody \<Rightarrow> bool" where
  "createAppointmentSchema now b \<longleftrightarrow>
     now \<le> c_startTime b \<and>
     c_startTime b < c_endTime b \<and>
     whenGiven (joiStringAllowEmpty 1000) (c_notes b) \<and>
     whenGiven (joiNumber 15 480) (c_estimatedDuration b) \<and>
     whenGiven locationSchema (c_location b)"

record updateBody =
  u_startTime :: "date option"
  u_endTime :: "date option"
  u_notes :: "jsString option"
  u_serviceType :: "serviceType option"
  u_priority :: "priority option"
  u_status :: "status option"
  u_estimatedDuration :: "real option"
  u_actualDuration :: "real option"
  u_cost :: "real option"
  u_location :: "location option"
  u_cancellationReason :: "jsString option"
  u_completionNotes :: "jsString option"
  u_rating :: "real option"
  u_feedback :: "jsString option"

text \<open>
  \<open>updateAppointmentSchema\<close> with its \<open>.custom\<close> rule: when both times are given,
  \<open>endTime <= startTime\<close> is an error.
\<close>

definition updateAppointmentSchema :: "updateBody \<Rightarrow> bool" where
  "updateAppointmentSchema b \<longleftrightarrow>
     whenGiven (joiStringAllowEmpty 1000) (u_notes b) \<and>
     whenGiven (joiNumber 15 480) (u_estimatedDuration b) \<and>
     whenGiven (\<lambda>x. 0 \<le> x) (u_actualDuration b) \<and>
     whenGiven (\<lambda>x. 0 \<le> x) (u_cost b) \<and>
     whenGiven locationSchema (u_location b) \<and>
     whenGiven (joiString 500) (u_cancellationReason b) \<and>
     whenGiven (joiString 1000) (u_completionNotes b) \<and>
     whenGiven (joiNumber 1 5) (u_rating b) \<and>
     whenGiven (joiString 500) (u_feedback b) \<and>
     \<not> (case (u_startTime b, u_endTime b) of
          (Some s, Some e) \<Rightarrow> e \<le> s
        | _ \<Rightarrow> False)"

text \<open>\<open>cancelAppointmentSchema\<close>: \<open>cancellationReason\<close> is \<open>max(500).optional().allow("")\<close>.\<close>

definition cancelAppointmentSchema :: "jsString option \<Rightarrow> bool" where
  "cancelAppointmentSchema reason \<longleftrightarrow> whenGiven (joiStringAllowEmpty 500) reason"

text \<open>
  The validators \<open>appointmentSchema\<close> declares, which \<open>save()\<close> runs: the \<open>endTime\<close>
  validator \<open>value > this.startTime\<close>, \<open>min\<close>/\<open>max\<close> on numbers, \<open>maxlength\<close> on
  strings. \<open>save()\<close> runs all of them, on a new document and on a loaded one alike: the
  paths read from the store are validated with the modified ones.
\<close>

definition endTimeValidator :: "appointment \<Rightarrow> bool" where
  "endTimeValidator a \<longleftrightarrow> endTime a > startTime a"

definition estimatedDurationValidator :: "appointment \<Rightarrow> bool" where
  "estimatedDurationValidator a \<longleftrightarrow> whenGiven (\<lambda>d. 15 \<le> d \<and> d \<le> 480) (estimatedDuration a)"

definition otherValidators :: "appointment \<Rightarrow> bool" where
  "otherValidators a \<longleftrightarrow>
     whenGiven (\<lambda>s. length s \<le> 1000) (appt_notes a) \<and>
     whenGiven (\<lambda>x. 0 \<le> x) (cost a) \<and>
     whenGiven (\<lambda>s. length s \<le> 500) (cancellationReason a) \<and>
     whenGiven (\<lambda>s. length s \<le> 1000) (completionNotes a) \<and>
     whenGiven (\<lambda>x. 1 \<le> x \<and> x \<le> 5) (rating a) \<and>
     whenGiven (\<lambda>s. length s \<le> 500) (feedback a)"

definition validateNew :: "appointment \<Rightarrow> bool" where
  "validateNew a \<longleftrightarrow> endTimeValidator a \<and> estimatedDurationValidator a \<and> otherValidators a"

text \<open>
  The setter \<open>trim: true\<close> of \<open>notes\<close> is \<open>String.prototype.trim\<close>: leading and
  trailing white space and line terminators are removed (tab, LF, VT, FF, CR, space,
  U+00A0, U+1680, U+2000 to U+200A, U+2028, U+2029, U+202F, U+205F, U+3000, U+FEFF).
\<close>

definition isWhiteSpace :: "16 word \<Rightarrow> bool" where
  "isWhiteSpace c \<longleftrightarrow>
     c \<in> {0x0009, 0x000A, 0x000B, 0x000C, 0x000D, 0x0020, 0x00A0, 0x1680, 0x2028, 0x2029,
           0x202F, 0x205F, 0x3000, 0xFEFF} \<or>
     (0x2000 \<le> c \<and> c \<le> 0x200A)"

definition trim :: "jsString \<Rightarrow> jsString" where
  "trim s = rev (dropWhile isWhiteSpace (rev (dropWhile isWhiteSpace s)))"

section \<open>Appointment lifecycle\<close>

text \<open>\<open>Math.round\<close> rounds to the nearest integer, a half towards plus infinity.\<close>

definition Math_round :: "real \<Rightarrow> int" where
  "Math_round x = \<lfloor>x + 1 / 2\<rfloor>"

text \<open>\<open>Math.round(timeDiff / (1000 * 60))\<close> with \<open>timeDiff = endTime - startTime\<close>.\<close>

definition durationMinutes :: "date \<Rightarrow> date \<Rightarrow> int" where
  "durationMinutes s e = Math_round (real_of_int (e - s) / (1000 * 60))"

text \<open>
  The store gives a new document an \<open>_id\<close> no stored document has: one more than the
  largest stored id.
\<close>

definition newObjectId :: "appointment list \<Rightarrow> objectId" where
  "newObjectId as = Suc (fold max (map appt_id as) 0)"

definition findById :: "store \<Rightarrow> objectId \<Rightarrow> appointment option" where
  "findById st i = find (\<lambda>a. appt_id a = i) (appointments st)"

text \<open>Writing a document back: the first stored document with that \<open>_id\<close> is replaced.\<close>

fun writeById :: "objectId \<Rightarrow> (appointment \<Rightarrow> appointment) \<Rightarrow> appointment list \<Rightarrow> appointment list" where
  "writeById i f [] = []"
| "writeById i f (a # as) = (if appt_id a = i then f a # as else a # writeById i f as)"

text \<open>
  "Calculate estimated duration if not provided": \<open>let duration = estimatedDuration;
  if (!duration) { duration = Math.round(timeDiff / (1000 * 60)) }\<close>. A supplied 0 is
  falsy as well.
\<close>

definition createDuration :: "createBody \<Rightarrow> real" where
  "createDuration b =
     (case c_estimatedDuration b of
        Some d \<Rightarrow> if d \<noteq> 0 then d
                  else real_of_int (durationMinutes (c_startTime b) (c_endTime b))
      | None \<Rightarrow> real_of_int (durationMinutes (c_startTime b) (c_endTime b)))"

text \<open>
  \<open>new Appointment({ ... })\<close> of the create route, with the schema's defaults
  (\<open>status\<close> is "scheduled") and the \<open>_id\<close> the store assigns.
\<close>

definition newAppointment :: "objectId \<Rightarrow> actor \<Rightarrow> createBody \<Rightarrow> appointment" where
  "newAppointment i usr b =
     \<lparr> appt_id = i,
       client = userId usr,
       technician = c_technicianId b,
       startTime = c_startTime b,
       endTime = c_endTime b,
       status = Scheduled,
       appt_notes = map_option trim (c_notes b),
       serviceType = c_serviceType b,
       priority = (case c_priority b of None \<Rightarrow> Medium | Some p \<Rightarrow> p),
       estimatedDuration = Some (createDuration b),
       actualDuration = None,
       cost = None,
       location = c_location b,
       cancellationReason = None,
       completionNotes = None,
       rating = None,
       feedback = None \<rparr>"

text \<open>
  \<open>router.post("/")\<close> behind \<open>authorize(["customer", "admin"])\<close> and
  \<open>validateRequest(createAppointmentSchema)\<close>. The result is the response and the store
  after the request.
\<close>

definition createAppointment ::
  "store \<Rightarrow> actor \<Rightarrow> date \<Rightarrow> createBody \<Rightarrow> (error + appointment) \<times> store" where
  "createAppointment st usr now b =
     (if actor_role usr \<notin> {Customer, Admin} then (Inl InsufficientPermissions, st)
      else if \<not> createAppointmentSchema now b then (Inl ValidationError, st)
      else
        case checkTechnicianAvailability st (c_technicianId b) (c_startTime b) (c_endTime b) None of
          Inl err \<Rightarrow> (Inl err, st)
        | Inr _ \<Rightarrow>
            let appointment = newAppointment (newObjectId (appointments st)) usr b
            in if validateNew appointment
               then (Inr appointment, st\<lparr>appointments := appointments st @ [appointment]\<rparr>)
               else (Inl PersistenceValidation, st))"

text \<open>
  The permission check shared by the update and cancel routes: an admin, the appointment's
  client or its technician.
\<close>

definition hasAccess :: "actor \<Rightarrow> appointment \<Rightarrow> bool" where
  "hasAccess usr appointment \<longleftrightarrow>
     actor_role usr = Admin \<or> client appointment = userId usr \<or> technician appointment = userId usr"

definition orElse :: "'a option \<Rightarrow> 'a \<Rightarrow> 'a" where
  "orElse x d = (case x of None \<Rightarrow> d | Some v \<Rightarrow> v)"

text \<open>
  The block "If updating time fields, verify availability" of the update route: \<open>None\<close>
  when the route goes on, the failure otherwise.
\<close>

definition verifyTimeFields ::
  "store \<Rightarrow> actor \<Rightarrow> date \<Rightarrow> appointment \<Rightarrow> updateBody \<Rightarrow> error option" where
  "verifyTimeFields st usr now appointment b =
     (if u_startTime b \<noteq> None \<or> u_endTime b \<noteq> None then
        let newStartTime = orElse (u_startTime b) (startTime appointment);
            newEndTime = orElse (u_endTime b) (endTime appointment)
        in if actor_role usr \<noteq> Admin \<and> newStartTime < now then Some StartTimeInPast
           else (case checkTechnicianAvailability st (technician appointment)
                        newStartTime newEndTime (Some (appt_id appointment)) of
                   Inl err \<Rightarrow> Some err
                 | Inr _ \<Rightarrow> None)
      else None)"

text \<open>\<open>allowedUpdates.forEach\<close>: every allow-listed field the body defines is assigned.\<close>

definition applyAllowedUpdates :: "updateBody \<Rightarrow> appointment \<Rightarrow> appointment" where
  "applyAllowedUpdates b a =
     a\<lparr> startTime := orElse (u_startTime b) (startTime a),
        endTime := orElse (u_endTime b) (endTime a),
        appt_notes := (case u_notes b of None \<Rightarrow> appt_notes a | Some n \<Rightarrow> Some (trim n)),
        serviceType := orElse (u_serviceType b) (serviceType a),
        priority := orElse (u_priority b) (priority a),
        status := orElse (u_status b) (status a),
        estimatedDuration :=
          (case u_estimatedDuration b of None \<Rightarrow> estimatedDuration a | Some d \<Rightarrow> Some d),
        actualDuration :=
          (case u_actualDuration b of None \<Rightarrow> actualDuration a | Some d \<Rightarrow> Some d),
        cost := (case u_cost b of None \<Rightarrow> cost a | Some c \<Rightarrow> Some c),
        location := (case u_location b of None \<Rightarrow> location a | Some l \<Rightarrow> Some l),
        cancellationReason :=
          (case u_cancellationReason b of None \<Rightarrow> cancellationReason a | Some r \<Rightarrow> Some r),
        completionNotes :=
          (case u_completionNotes b of None \<Rightarrow> completionNotes a | Some n \<Rightarrow> Some n),
        rating := (case u_rating b of None \<Rightarrow> rating a | Some r \<Rightarrow> Some r),
        feedback := (case u_feedback b of None \<Rightarrow> feedback a | Some f \<Rightarrow> Some f) \<rparr>"

text \<open>
  "Auto-set actual duration when marking as completed":
  \<open>req.body.status === "completed" && !req.body.actualDuration\<close>; a supplied 0 is falsy.
\<close>

definition autoActualDuration :: "updateBody \<Rightarrow> appointment \<Rightarrow> appointment" where
  "autoActualDuration b a =
     (if u_status b = Some Completed \<and> (u_actualDuration b = None \<or> u_actualDuration b = Some 0)
      then a\<lparr>actualDuration := Some (real_of_int (durationMinutes (startTime a) (endTime a)))\<rparr>
      else a)"

text \<open>\<open>router.put("/:appointmentId")\<close> behind \<open>validateRequest(updateAppointmentSchema)\<close>.\<close>

definition updateAppointment ::
  "store \<Rightarrow> actor \<Rightarrow> date \<Rightarrow> objectId \<Rightarrow> updateBody \<Rightarrow> (error + appointment) \<times> store" where
  "updateAppointment st usr now appointmentId b =
     (if \<not> updateAppointmentSchema b then (Inl ValidationError, st)
      else
        case findById st appointmentId of
          None \<Rightarrow> (Inl NotFound, st)
        | Some appointment \<Rightarrow>
            if \<not> hasAccess usr appointment then (Inl AccessDenied, st)
            else if actor_role usr \<noteq> Admin \<and> status appointment \<in> {Completed, Canceled}
              then (Inl ImmutableState, st)
            else
              (case verifyTimeFields st usr now appointment b of
                 Some err \<Rightarrow> (Inl err, st)
               | None \<Rightarrow>
                   let updated = autoActualDuration b (applyAllowedUpdates b appointment)
                   in if validateNew updated
                      then (Inr updated,
                            st\<lparr>appointments :=
                                  writeById appointmentId (\<lambda>_. updated) (appointments st)\<rparr>)
                      else (Inl PersistenceValidation, st)))"

text \<open>
  \<open>router.patch("/:appointmentId/cancel")\<close> behind
  \<open>validateRequest(cancelAppointmentSchema)\<close>. The write is \<open>findByIdAndUpdate\<close> with
  \<open>runValidators: false\<close>; the response is the document read back. The update document
  also names \<open>canceledAt\<close> and \<open>canceledBy\<close>: the schema declares neither and is strict, so
  the write stores \<open>status\<close> and \<open>cancellationReason\<close> only.
\<close>

definition cancelAppointment ::
  "store \<Rightarrow> actor \<Rightarrow> date \<Rightarrow> objectId \<Rightarrow> jsString option \<Rightarrow>
     (error + appointment option) \<times> store" where
  "cancelAppointment st usr now appointmentId reason =
     (if \<not> cancelAppointmentSchema reason then (Inl ValidationError, st)
      else
        case findById st appointmentId of
          None \<Rightarrow> (Inl NotFound, st)
        | Some appointment \<Rightarrow>
            if \<not> hasAccess usr appointment then (Inl AccessDenied, st)
            else if status appointment = Canceled then (Inl AlreadyCanceled, st)
            else if actor_role usr \<noteq> Admin \<and>
                    now > startTime appointment - 24 * 60 * 60 * 1000
              then (Inl CancellationWindowExpired, st)
            else
              let st' = st\<lparr>appointments :=
                    writeById appointmentId
                      (\<lambda>a. a\<lparr> status := Canceled,
                               cancellationReason :=
                                 Some (case reason of
                                         None \<Rightarrow> utf16 ''No reason provided''
                                       | Some r \<Rightarrow>
                                           if r = [] then utf16 ''No reason provided''
                                           else r) \<rparr>)
                      (appointments st)\<rparr>
              in (Inr (findById st' appointmentId), st'))"

section \<open>Availability calculator\<close>

text \<open>
  \<open>setUTCHours(0, 0, 0, 0)\<close> and \<open>setUTCHours(23, 59, 59, 999)\<close> on the requested date,
  and the UTC hour and minute of a date.
\<close>

definition startOfDay :: "date \<Rightarrow> date" where
  "startOfDay d = d - d mod (24 * 60 * 60 * 1000)"

definition endOfDay :: "date \<Rightarrow> date" where
  "endOfDay d = startOfDay d + (23 * 60 * 60 * 1000 + 59 * 60 * 1000 + 59 * 1000 + 999)"

definition getUTCHours :: "date \<Rightarrow> int" where
  "getUTCHours t = (t div (60 * 60 * 1000)) mod 24"

definition getUTCMinutes :: "date \<Rightarrow> int" where
  "getUTCMinutes t = (t div (60 * 1000)) mod 60"

definition workingHours :: "string list" where
  "workingHours =
     [''09:00'', ''10:00'', ''11:00'', ''12:00'', ''13:00'', ''14:00'', ''15:00'', ''16:00'']"

text \<open>
  The \<open>$or\<close> of the availability route's query: start within the day, or end within the
  day, or start at or before the day's start and end at or after its end.
\<close>

definition dayCases :: "date \<Rightarrow> date \<Rightarrow> date \<Rightarrow> date \<Rightarrow> bool" where
  "dayCases dayStart dayEnd s e \<longleftrightarrow>
     (dayStart \<le> s \<and> s \<le> dayEnd) \<or>
     (dayStart \<le> e \<and> e \<le> dayEnd) \<or>
     (s \<le> dayStart \<and> dayEnd \<le> e)"

definition dayQuery :: "objectId \<Rightarrow> date \<Rightarrow> date \<Rightarrow> appointment \<Rightarrow> bool" where
  "dayQuery technicianId dayStart dayEnd a \<longleftrightarrow>
     technician a = technicianId \<and>
     dayCases dayStart dayEnd (startTime a) (endTime a) \<and>
     status a \<notin> {Canceled, Completed}"

text \<open>\<open>hour.toString().padStart(2, "0") + ":00"\<close>\<close>

fun toString :: "nat \<Rightarrow> string" where
  "toString n =
     (if n < 10 then [''0123456789'' ! n]
      else toString (n div 10) @ [''0123456789'' ! (n mod 10)])"

definition padStart :: "nat \<Rightarrow> char \<Rightarrow> string \<Rightarrow> string" where
  "padStart n c s = replicate (n - length s) c @ s"

definition timeSlot :: "int \<Rightarrow> string" where
  "timeSlot hour =
     padStart 2 (CHR ''0'') ((if hour < 0 then ''-'' else []) @ toString (nat \<bar>hour\<bar>)) @ '':00''"

text \<open>\<open>Set.add\<close>: a set keeps insertion order and ignores a value it already holds.\<close>

definition setAdd :: "'a \<Rightarrow> 'a list \<Rightarrow> 'a list" where
  "setAdd x xs = (if x \<in> set xs then xs else xs @ [x])"

text \<open>
  The loop \<open>for (let hour = startHour; hour <= last; hour++)\<close> with
  \<open>last = endMinutes > 0 ? endHour : endHour - 1\<close>.
\<close>

function markHours :: "int \<Rightarrow> int \<Rightarrow> string list \<Rightarrow> string list" where
  "markHours hour lastHour bookedSlots =
     (if hour \<le> lastHour
      then markHours (hour + 1) lastHour
             (if timeSlot hour \<in> set workingHours
              then setAdd (timeSlot hour) bookedSlots else bookedSlots)
      else bookedSlots)"
  by pat_completeness auto
termination
  by (relation "measure (\<lambda>(hour, lastHour, bookedSlots). nat (lastHour + 1 - hour))") auto

text \<open>The body of \<open>appointments.forEach\<close>.\<close>

definition markAppointment :: "string list \<Rightarrow> appointment \<Rightarrow> string list" where
  "markAppointment bookedSlots appt =
     (let startHour = getUTCHours (startTime appt);
          endHour = getUTCHours (endTime appt);
          endMinutes = getUTCMinutes (endTime appt)
      in markHours startHour (if endMinutes > 0 then endHour else endHour - 1) bookedSlots)"

text \<open>
  \<open>router.get("/:technicianId/availability")\<close> from the parsed \<open>requestedDate\<close> on:
  the pair of \<open>bookedSlots\<close> and \<open>availableSlots\<close> of the response.
\<close>

definition technicianAvailability ::
  "store \<Rightarrow> objectId \<Rightarrow> date \<Rightarrow> error + string list \<times> string list" where
  "technicianAvailability st technicianId requestedDate =
     (case findTechnician st technicianId of
        None \<Rightarrow> Inl TechnicianNotFound
      | Some tech \<Rightarrow>
          if availability tech \<noteq> Available then Inl TechnicianUnavailable
          else
            let fetched = filter (dayQuery technicianId (startOfDay requestedDate)
                                    (endOfDay requestedDate)) (appointments st);
                bookedSlots = foldl markAppointment [] fetched;
                availableSlots = filter (\<lambda>slot. slot \<notin> set bookedSlots) workingHours
            in Inr (bookedSlots, availableSlots))"

section \<open>Properties of the scheduling core\<close>

text \<open>
  An appointment counts for double booking when its status is not canceled or completed.
  \<open>spec_overlaps\<close> is the overlap predicate as the spec words it (section 4.1), to be
  compared with the query of the source: two intervals overlap iff
  \<open>A.start < B.end AND B.start < A.end\<close>.
\<close>

definition active :: "appointment \<Rightarrow> bool" where
  "active a \<longleftrightarrow> status a \<notin> {Canceled, Completed}"

definition spec_overlaps :: "date \<times> date \<Rightarrow> date \<times> date \<Rightarrow> bool" where
  "spec_overlaps A B \<longleftrightarrow> fst A < snd B \<and> fst B < snd A"

definition interval :: "appointment \<Rightarrow> date \<times> date" where
  "interval a = (startTime a, endTime a)"

text \<open>The no-double-booking invariant, over pairs of different stored appointments.\<close>

definition noDoubleBooking :: "store \<Rightarrow> bool" where
  "noDoubleBooking st \<longleftrightarrow>
     (\<forall>a \<in> set (appointments st). \<forall>b \<in> set (appointments st).
        appt_id a \<noteq> appt_id b \<and> technician a = technician b \<and> active a \<and> active b
          \<longrightarrow> \<not> spec_overlaps (interval a) (interval b))"

text \<open>Stored documents have pairwise different ids.\<close>

definition uniqueIds :: "store \<Rightarrow> bool" where
  "uniqueIds st \<longleftrightarrow> distinct (map appt_id (appointments st))"

text \<open>
  Sequential execution of create and update requests: each request runs on the store the
  previous one left.
\<close>

datatype request =
    Create actor date createBody
  | Update actor date objectId updateBody

fun handle :: "store \<Rightarrow> request \<Rightarrow> store" where
  "handle st (Create usr now b) = snd (createAppointment st usr now b)"
| "handle st (Update usr now i b) = snd (updateAppointment st usr now i b)"

fun runRequests :: "store \<Rightarrow> request list \<Rightarrow> store" where
  "runRequests st [] = st"
| "runRequests st (r # rs) = runRequests (handle st r) rs"

text \<open>A request is accepted when its route answers with the appointment.\<close>

fun accepted :: "store \<Rightarrow> request \<Rightarrow> bool" where
  "accepted st (Create usr now b) = (\<not> isl (fst (createAppointment st usr now b)))"
| "accepted st (Update usr now i b) = (\<not> isl (fst (updateAppointment st usr now i b)))"

fun allAccepted :: "store \<Rightarrow> request list \<Rightarrow> bool" where
  "allAccepted st [] = True"
| "allAccepted st (r # rs) = (accepted st r \<and> allAccepted (handle st r) rs)"

text \<open>
  The one kind of request that makes an appointment active without a conflict check: an
  admin's update that has no time fields, so that the route skips
  \<open>checkTechnicianAvailability\<close>, and that sets a status other than canceled or completed.
  A non-admin cannot do this to a canceled or completed appointment: the route rejects it.
\<close>

fun activatesWithoutCheck :: "request \<Rightarrow> bool" where
  "activatesWithoutCheck (Create usr now b) = False"
| "activatesWithoutCheck (Update usr now i b) =
     (u_startTime b = None \<and> u_endTime b = None \<and> actor_role usr = Admin \<and>
      (case u_status b of None \<Rightarrow> False | Some s \<Rightarrow> s \<notin> {Canceled, Completed}))"

text \<open>
  \<open>spec_intersectsDay\<close> is the day-intersection predicate as the spec words it (section
  4.3), to be compared with \<open>dayCases\<close> of the source:
  \<open>start <= dayEnd AND end >= dayStart\<close>.
\<close>

definition spec_intersectsDay :: "date \<Rightarrow> date \<Rightarrow> date \<Rightarrow> date \<Rightarrow> bool" where
  "spec_intersectsDay dayStart dayEnd s e \<longleftrightarrow> s \<le> dayEnd \<and> e \<ge> dayStart"

subsection \<open>Sample data\<close>

text \<open>
  One available technician (id 7), a customer (id 3) who is the client of the sample
  appointments, another customer (id 4), an admin (id 1). Times are milliseconds;
  \<open>day0\<close> is 2024-01-01T00:00:00Z.
\<close>

definition day0 :: date where
  "day0 = 1704067200000"

definition hm :: "int \<Rightarrow> int \<Rightarrow> date" where
  "hm h m = (h * 60 + m) * 60 * 1000"

definition technician7 :: user where
  "technician7 = \<lparr> user_id = 7, role = Technician, isActive = True, availability = Available \<rparr>"

definition customer3 :: actor where
  "customer3 = \<lparr> userId = 3, actor_role = Customer \<rparr>"

definition customer4 :: actor where
  "customer4 = \<lparr> userId = 4, actor_role = Customer \<rparr>"

definition admin1 :: actor where
  "admin1 = \<lparr> userId = 1, actor_role = Admin \<rparr>"

definition sampleAppointment :: "objectId \<Rightarrow> date \<Rightarrow> date \<Rightarrow> status \<Rightarrow> appointment" where
  "sampleAppointment i s e stat =
     \<lparr> appt_id = i, client = 3, technician = 7, startTime = s, endTime = e, status = stat,
       appt_notes = None, serviceType = Repair, priority = Medium,
       estimatedDuration = Some 60, actualDuration = None, cost = None, location = None,
       cancellationReason = None, completionNotes = None, rating = None, feedback = None \<rparr>"

definition sampleStore :: "appointment list \<Rightarrow> store" where
  "sampleStore as = \<lparr> users = [technician7], appointments = as \<rparr>"

definition sampleCreate :: "date \<Rightarrow> date \<Rightarrow> real option \<Rightarrow> createBody" where
  "sampleCreate s e d =
     \<lparr> c_technicianId = 7, c_startTime = s, c_endTime = e, c_notes = None,
       c_serviceType = Repair, c_priority = None, c_estimatedDuration = d,
       c_location = None \<rparr>"

definition emptyUpdate :: updateBody where
  "emptyUpdate =
     \<lparr> u_startTime = None, u_endTime = None, u_notes = None, u_serviceType = None,
       u_priority = None, u_status = None, u_estimatedDuration = None,
       u_actualDuration = None, u_cost = None, u_location = None,
       u_cancellationReason = None, u_completionNotes = None, u_rating = None,
       u_feedback = None \<rparr>"

definition sampleRequests :: "request list" where
  "sampleRequests =
     [Create customer3 day0 (sampleCreate (day0 + hm 9 0) (day0 + hm 10 0) None),
      Create customer3 day0 (sampleCreate (day0 + hm 10 0) (day0 + hm 11 0) None),
      Create customer3 day0 (sampleCreate (day0 + hm 9 30) (day0 + hm 10 30) None),
      Update admin1 day0 1
        (emptyUpdate\<lparr>u_startTime := Some (day0 + hm 11 0), u_endTime := Some (day0 + hm 12 0),
                      u_status := Some InProgress\<rparr>)]"

text \<open>
  A run the routes accept throughout: a booking, its completion by the client, a second
  booking of the same hour, and the admin setting the first back to scheduled.
\<close>

definition reactivationRequests :: "request list" where
  "reactivationRequests =
     [Create customer3 day0 (sampleCreate (day0 + hm 9 0) (day0 + hm 10 0) None),
      Update customer3 day0 1 (emptyUpdate\<lparr>u_status := Some Completed\<rparr>),
      Create customer3 day0 (sampleCreate (day0 + hm 9 0) (day0 + hm 10 0) None),
      Update admin1 day0 1 (emptyUpdate\<lparr>u_status := Some Scheduled\<rparr>)]"

section \<open>Auxiliary facts\<close>

subsection \<open>Day bounds\<close>

lemma startOfDay_le_endOfDay: "startOfDay d \<le> endOfDay d"
  by (simp add: endOfDay_def)

subsection \<open>The conflict check\<close>

lemma filter_ConsD: "filter P xs = y # ys \<Longrightarrow> y \<in> set xs \<and> P y"
proof -
  assume h: "filter P xs = y # ys"
  have "y \<in> set (filter P xs)" by (simp add: h)
  then show ?thesis by simp
qed

lemma checkTechnicianAvailability_Inr_iff:
  "checkTechnicianAvailability st tid s e x = Inr tech \<longleftrightarrow>
     findTechnician st tid = Some tech \<and> availability tech = Available \<and>
     (\<forall>a \<in> set (appointments st). \<not> conflictQuery tid s e x a)"
  by (auto simp: checkTechnicianAvailability_def filter_empty_conv
      split: option.splits if_splits list.splits dest: filter_ConsD)

lemma checkTechnicianAvailability_conflict:
  "checkTechnicianAvailability st tid s e x = Inl (SchedulingConflict s' e') \<Longrightarrow>
     \<exists>a \<in> set (appointments st). conflictQuery tid s e x a"
  by (auto simp: checkTechnicianAvailability_def
      split: option.splits if_splits list.splits dest: filter_ConsD)

lemma conflictQuery_overlaps:
  "conflictQuery tid s e x a \<longleftrightarrow>
     technician a = tid \<and> active a \<and> spec_overlaps (interval a) (s, e) \<and>
     (\<forall>i. x = Some i \<longrightarrow> appt_id a \<noteq> i)"
  by (auto simp: conflictQuery_def active_def spec_overlaps_def interval_def split: option.splits)

subsection \<open>Creating an appointment\<close>

lemma fold_max_ge: "(m::nat) \<le> fold max xs m"
  by (induction xs arbitrary: m) (auto intro: order_trans [OF max.cobounded2])

lemma fold_max_mem: "x \<in> set xs \<Longrightarrow> (x::nat) \<le> fold max xs m"
proof (induction xs arbitrary: m)
  case Nil
  then show ?case by simp
next
  case (Cons y ys)
  show ?case
  proof (cases "x = y")
    case True
    have "y \<le> max y m" by simp
    also have "\<dots> \<le> fold max ys (max y m)" by (rule fold_max_ge)
    finally show ?thesis using True by simp
  next
    case False
    with Cons show ?thesis by simp
  qed
qed

lemma newObjectId_fresh: "a \<in> set as \<Longrightarrow> appt_id a < newObjectId as"
  using fold_max_mem [of "appt_id a" "map appt_id as" 0]
  by (simp add: newObjectId_def less_Suc_eq_le)

lemma createAppointment_Inr_iff:
  "createAppointment st usr now b = (Inr a, st') \<longleftrightarrow>
     actor_role usr \<in> {Customer, Admin} \<and> createAppointmentSchema now b \<and>
     (\<exists>tech. checkTechnicianAvailability st (c_technicianId b) (c_startTime b) (c_endTime b) None
               = Inr tech) \<and>
     a = newAppointment (newObjectId (appointments st)) usr b \<and> validateNew a \<and>
     st' = st\<lparr>appointments := appointments st @ [a]\<rparr>"
  by (auto simp: createAppointment_def Let_def split: sum.splits)

lemma createAppointment_Inl:
  "createAppointment st usr now b = (Inl err, st') \<Longrightarrow> st' = st"
  by (auto simp: createAppointment_def Let_def split: sum.splits if_splits)

lemma validateNew_newAppointment:
  "validateNew (newAppointment i usr b) \<Longrightarrow> validateNew (newAppointment j usr b)"
  by (simp add: newAppointment_def validateNew_def endTimeValidator_def
      estimatedDurationValidator_def otherValidators_def)

lemma findTechnician_appointments [simp]:
  "findTechnician (st\<lparr>appointments := as\<rparr>) tid = findTechnician st tid"
  by (simp add: findTechnician_def)

subsection \<open>Durations, and the definitions to unfold on concrete data\<close>

lemma durationMinutes_div: "durationMinutes s e = (e - s + 30000) div 60000"
proof -
  have "real_of_int (e - s) / (1000 * 60) + 1 / 2
          = real_of_int (e - s + 30000) / real_of_int 60000"
    by (simp add: field_simps)
  then show ?thesis
    unfolding durationMinutes_def Math_round_def
    by (simp only: floor_divide_of_int_eq)
qed

lemma Math_round_round: "Math_round x = round x"
  by (simp add: Math_round_def round_def)

lemmas sample_defs =
  sampleStore_def sampleCreate_def sampleAppointment_def technician7_def customer3_def
  customer4_def admin1_def day0_def hm_def emptyUpdate_def

lemmas create_eval =
  createAppointment_def createAppointmentSchema_def checkTechnicianAvailability_def
  findTechnician_def conflictQuery_def newAppointment_def newObjectId_def createDuration_def
  durationMinutes_div validateNew_def endTimeValidator_def estimatedDurationValidator_def
  otherValidators_def whenGiven_def joiNumber_def joiStringAllowEmpty_def joiString_def
  locationSchema_def Let_def

lemmas update_eval =
  updateAppointment_def updateAppointmentSchema_def findById_def hasAccess_def
  verifyTimeFields_def applyAllowedUpdates_def autoActualDuration_def validateNew_def
  otherValidators_def orElse_def checkTechnicianAvailability_def findTechnician_def conflictQuery_def
  endTimeValidator_def estimatedDurationValidator_def whenGiven_def joiNumber_def
  joiStringAllowEmpty_def joiString_def locationSchema_def durationMinutes_div Let_def

lemmas cancel_eval =
  cancelAppointment_def cancelAppointmentSchema_def findById_def hasAccess_def
  whenGiven_def joiStringAllowEmpty_def Let_def

lemmas availability_eval =
  technicianAvailability_def findTechnician_def dayQuery_def dayCases_def startOfDay_def
  endOfDay_def markAppointment_def getUTCHours_def getUTCMinutes_def timeSlot_def padStart_def
  workingHours_def setAdd_def Let_def

subsection \<open>Writing a document back\<close>

lemma findById_SomeD: "findById st i = Some a \<Longrightarrow> a \<in> set (appointments st) \<and> appt_id a = i"
  by (auto simp: findById_def find_Some_iff)

lemma writeById_mem:
  "distinct (map appt_id as) \<Longrightarrow> x \<in> set (writeById i f as) \<Longrightarrow>
     (x \<in> set as \<and> appt_id x \<noteq> i) \<or> (\<exists>a \<in> set as. appt_id a = i \<and> x = f a)"
proof (induction as)
  case Nil
  then show ?case by simp
next
  case (Cons a as)
  show ?case
  proof (cases "appt_id a = i")
    case True
    with Cons.prems have m: "x = f a \<or> x \<in> set as" and d: "i \<notin> appt_id ` set as"
      by auto
    from d have "\<And>y. y \<in> set as \<Longrightarrow> appt_id y \<noteq> i" by (metis imageI)
    with m True show ?thesis by auto
  next
    case False
    with Cons show ?thesis by auto
  qed
qed

lemma writeById_ids:
  "(\<And>a. appt_id a = i \<Longrightarrow> appt_id (f a) = i) \<Longrightarrow>
     map appt_id (writeById i f as) = map appt_id as"
  by (induction as) auto

lemma find_writeById:
  "find (\<lambda>a. appt_id a = i) as = Some a \<Longrightarrow> appt_id (f a) = i \<Longrightarrow>
     find (\<lambda>a. appt_id a = i) (writeById i f as) = Some (f a)"
  by (induction as) (auto split: if_splits)

lemma updated_fields:
  "appt_id (autoActualDuration b (applyAllowedUpdates b a)) = appt_id a"
  "technician (autoActualDuration b (applyAllowedUpdates b a)) = technician a"
  "startTime (autoActualDuration b (applyAllowedUpdates b a)) = orElse (u_startTime b) (startTime a)"
  "endTime (autoActualDuration b (applyAllowedUpdates b a)) = orElse (u_endTime b) (endTime a)"
  by (simp_all add: autoActualDuration_def applyAllowedUpdates_def)

lemma updateAppointment_cases:
  assumes "updateAppointment st usr now i b = (r, st')"
  shows "(st' = st \<and> isl r) \<or>
     (\<exists>a. findById st i = Some a \<and> verifyTimeFields st usr now a b = None \<and>
          r = Inr (autoActualDuration b (applyAllowedUpdates b a)) \<and>
          st' = st\<lparr>appointments :=
                  writeById i (\<lambda>_. autoActualDuration b (applyAllowedUpdates b a))
                    (appointments st)\<rparr>)"
  using assms
  by (auto simp: updateAppointment_def Let_def split: option.splits if_splits)

lemma verifyTimeFields_None:
  assumes "verifyTimeFields st usr now a b = None"
    and "u_startTime b \<noteq> None \<or> u_endTime b \<noteq> None"
  shows "\<exists>tech. checkTechnicianAvailability st (technician a)
            (orElse (u_startTime b) (startTime a)) (orElse (u_endTime b) (endTime a))
            (Some (appt_id a)) = Inr tech"
  using assms
  by (auto simp: verifyTimeFields_def Let_def split: if_splits sum.splits)

subsection \<open>Each checked request keeps the invariant\<close>

lemma create_preserves:
  assumes u: "uniqueIds st" and inv: "noDoubleBooking st"
  shows "noDoubleBooking (snd (createAppointment st usr now b)) \<and>
         uniqueIds (snd (createAppointment st usr now b))"
proof (cases "createAppointment st usr now b")
  case (Pair r st')
  show ?thesis
  proof (cases r)
    case (Inl err)
    with Pair have "st' = st" by (simp add: createAppointment_Inl)
    with Pair u inv show ?thesis by simp
  next
    case (Inr a)
    with Pair have ok: "createAppointment st usr now b = (Inr a, st')" by simp
    then obtain tech where
      chk: "checkTechnicianAvailability st (c_technicianId b) (c_startTime b) (c_endTime b) None
             = Inr tech"
      and a: "a = newAppointment (newObjectId (appointments st)) usr b"
      and st': "st' = st\<lparr>appointments := appointments st @ [a]\<rparr>"
      by (auto simp: createAppointment_Inr_iff)
    have fresh: "\<And>x. x \<in> set (appointments st) \<Longrightarrow> appt_id x \<noteq> appt_id a"
      using newObjectId_fresh by (fastforce simp: a newAppointment_def)
    have nc: "\<And>x. x \<in> set (appointments st) \<Longrightarrow> technician x = technician a \<Longrightarrow> active x
                \<Longrightarrow> \<not> spec_overlaps (interval x) (interval a)"
      using chk
      by (auto simp: checkTechnicianAvailability_Inr_iff conflictQuery_overlaps a
          newAppointment_def interval_def)
    have sym: "\<And>A B. spec_overlaps A B = spec_overlaps B A" by (auto simp: spec_overlaps_def)
    have "noDoubleBooking st'"
      unfolding noDoubleBooking_def st'
      using inv nc sym by (auto simp: noDoubleBooking_def)
    moreover have "uniqueIds st'"
    proof -
      have "appt_id a \<notin> appt_id ` set (appointments st)" using fresh by (metis imageE)
      with u show ?thesis by (simp add: uniqueIds_def st')
    qed
    ultimately show ?thesis using Pair by simp
  qed
qed

text \<open>
  A create that writes, and an update with time fields that writes, has passed the
  conflict check; a rejected request writes nothing.
\<close>

lemma written_request_passed_check:
  "createAppointment st usr now cb = (Inr a, st') \<Longrightarrow>
     \<exists>tech. checkTechnicianAvailability st (c_technicianId cb) (c_startTime cb) (c_endTime cb) None
              = Inr tech"
  "updateAppointment st usr now i ub = (Inr a', st') \<Longrightarrow>
   u_startTime ub \<noteq> None \<or> u_endTime ub \<noteq> None \<Longrightarrow>
     \<exists>a tech. findById st i = Some a \<and>
       checkTechnicianAvailability st (technician a)
         (orElse (u_startTime ub) (startTime a)) (orElse (u_endTime ub) (endTime a))
         (Some (appt_id a)) = Inr tech"
proof -
  show "createAppointment st usr now cb = (Inr a, st') \<Longrightarrow>
     \<exists>tech. checkTechnicianAvailability st (c_technicianId cb) (c_startTime cb) (c_endTime cb) None
              = Inr tech"
    by (simp add: createAppointment_Inr_iff)
  assume u: "updateAppointment st usr now i ub = (Inr a', st')"
    and t: "u_startTime ub \<noteq> None \<or> u_endTime ub \<noteq> None"
  from updateAppointment_cases [OF u] obtain a where
    "findById st i = Some a" "verifyTimeFields st usr now a ub = None"
    by auto
  with verifyTimeFields_None [OF _ t] show
    "\<exists>a tech. findById st i = Some a \<and>
       checkTechnicianAvailability st (technician a)
         (orElse (u_startTime ub) (startTime a)) (orElse (u_endTime ub) (endTime a))
         (Some (appt_id a)) = Inr tech"
    by blast
qed

lemma rejected_request_writes_nothing:
  "isl (fst (createAppointment st usr now cb)) \<Longrightarrow> snd (createAppointment st usr now cb) = st"
  "isl (fst (updateAppointment st usr now i ub)) \<Longrightarrow> snd (updateAppointment st usr now i ub) = st"
proof -
  show "isl (fst (createAppointment st usr now cb)) \<Longrightarrow> snd (createAppointment st usr now cb) = st"
    by (cases "createAppointment st usr now cb") (auto simp: isl_def dest: createAppointment_Inl)
  show "isl (fst (updateAppointment st usr now i ub)) \<Longrightarrow> snd (updateAppointment st usr now i ub) = st"
    by (cases "updateAppointment st usr now i ub") (auto dest: updateAppointment_cases)
qed

text \<open>
  Every request keeps the invariant, the admin's re-activation without time fields apart:
  a create and an update with time fields by the check they passed, any other update
  because it leaves the interval as it was and makes no inactive appointment active.
\<close>

lemma updateAppointment_written:
  assumes "updateAppointment st usr now i b = (Inr n, st')"
  shows "\<exists>a. findById st i = Some a \<and>
           (actor_role usr = Admin \<or> status a \<notin> {Completed, Canceled}) \<and>
           verifyTimeFields st usr now a b = None \<and>
           n = autoActualDuration b (applyAllowedUpdates b a) \<and>
           st' = st\<lparr>appointments := writeById i (\<lambda>_. n) (appointments st)\<rparr>"
  using assms
  by (auto simp: updateAppointment_def Let_def split: option.splits if_splits)

lemma write_keeps_invariant:
  assumes u: "uniqueIds st" and inv: "noDoubleBooking st"
    and f: "findById st i = Some a" and ni: "appt_id n = i"
    and nc: "\<And>x. x \<in> set (appointments st) \<Longrightarrow> appt_id x \<noteq> i \<Longrightarrow>
                technician x = technician n \<Longrightarrow> active x \<Longrightarrow> active n \<Longrightarrow>
                \<not> spec_overlaps (interval x) (interval n)"
  shows "noDoubleBooking (st\<lparr>appointments := writeById i (\<lambda>_. n) (appointments st)\<rparr>) \<and>
         uniqueIds (st\<lparr>appointments := writeById i (\<lambda>_. n) (appointments st)\<rparr>)"
proof -
  let ?st' = "st\<lparr>appointments := writeById i (\<lambda>_. n) (appointments st)\<rparr>"
  have sym: "\<And>A B. spec_overlaps A B = spec_overlaps B A" by (auto simp: spec_overlaps_def)
  have mem: "\<And>x. x \<in> set (appointments ?st') \<Longrightarrow>
               (x \<in> set (appointments st) \<and> appt_id x \<noteq> i) \<or> x = n"
    using writeById_mem [of "appointments st" _ i "\<lambda>_. n"] u
    by (auto simp: uniqueIds_def)
  have "noDoubleBooking ?st'"
    unfolding noDoubleBooking_def
  proof (intro ballI impI)
    fix x y
    assume x: "x \<in> set (appointments ?st')" and y: "y \<in> set (appointments ?st')"
      and h: "appt_id x \<noteq> appt_id y \<and> technician x = technician y \<and> active x \<and> active y"
    from mem [OF x] mem [OF y]
    show "\<not> spec_overlaps (interval x) (interval y)"
    proof (elim disjE)
      assume "x \<in> set (appointments st) \<and> appt_id x \<noteq> i"
        and "y \<in> set (appointments st) \<and> appt_id y \<noteq> i"
      with inv h show ?thesis by (auto simp: noDoubleBooking_def)
    next
      assume "x \<in> set (appointments st) \<and> appt_id x \<noteq> i" and "y = n"
      with nc [of x] h show ?thesis by simp
    next
      assume "x = n" and "y \<in> set (appointments st) \<and> appt_id y \<noteq> i"
      with nc [of y] h sym show ?thesis by simp
    next
      assume "x = n" and "y = n"
      with h show ?thesis by simp
    qed
  qed
  moreover have "uniqueIds ?st'"
  proof -
    have "map appt_id (writeById i (\<lambda>_. n) (appointments st)) = map appt_id (appointments st)"
      using ni by (intro writeById_ids) simp
    then show ?thesis using u by (simp add: uniqueIds_def)
  qed
  ultimately show ?thesis by simp
qed

lemma update_keeps_invariant:
  assumes u: "uniqueIds st" and inv: "noDoubleBooking st"
    and na: "\<not> activatesWithoutCheck (Update usr now i b)"
  shows "noDoubleBooking (snd (updateAppointment st usr now i b)) \<and>
         uniqueIds (snd (updateAppointment st usr now i b))"
proof (cases "updateAppointment st usr now i b")
  case (Pair r st')
  show ?thesis
  proof (cases r)
    case (Inl err)
    with Pair rejected_request_writes_nothing(2) [of st usr now i b] u inv
    show ?thesis by simp
  next
    case (Inr n)
    with Pair have w: "updateAppointment st usr now i b = (Inr n, st')" by simp
    from updateAppointment_written [OF w] obtain a where f: "findById st i = Some a"
      and g: "actor_role usr = Admin \<or> status a \<notin> {Completed, Canceled}"
      and v: "verifyTimeFields st usr now a b = None"
      and n: "n = autoActualDuration b (applyAllowedUpdates b a)"
      and st': "st' = st\<lparr>appointments := writeById i (\<lambda>_. n) (appointments st)\<rparr>"
      by blast
    from f have ai: "appt_id a = i" and am: "a \<in> set (appointments st)"
      by (simp_all add: findById_SomeD)
    have ni: "appt_id n = i" by (simp add: n updated_fields ai)
    have nc: "\<not> spec_overlaps (interval x) (interval n)"
      if x: "x \<in> set (appointments st)" "appt_id x \<noteq> i" "technician x = technician n"
        "active x" "active n" for x
    proof (cases "u_startTime b \<noteq> None \<or> u_endTime b \<noteq> None")
      case True
      from verifyTimeFields_None [OF v True] obtain tech where
        "checkTechnicianAvailability st (technician a) (startTime n) (endTime n) (Some i)
           = Inr tech"
        by (auto simp: n updated_fields ai)
      with x show ?thesis
        by (auto simp: checkTechnicianAvailability_Inr_iff conflictQuery_overlaps
            interval_def n updated_fields)
    next
      case False
      then have same: "interval n = interval a"
        by (simp add: interval_def n updated_fields orElse_def)
      have sn: "status n = orElse (u_status b) (status a)"
        by (simp add: n autoActualDuration_def applyAllowedUpdates_def)
      have "active a"
      proof (cases "actor_role usr = Admin")
        case True
        with na False have "u_status b = None \<or> u_status b = Some Canceled \<or>
            u_status b = Some Completed"
          by (auto split: option.splits)
        with x(5) sn show ?thesis by (auto simp: active_def orElse_def)
      next
        case False
        with g show ?thesis by (auto simp: active_def)
      qed
      with inv am x same show ?thesis
        by (auto simp: noDoubleBooking_def ai n updated_fields)
    qed
    have "noDoubleBooking st' \<and> uniqueIds st'"
      unfolding st' by (rule write_keeps_invariant [OF u inv f ni nc])
    then show ?thesis using Pair by simp
  qed
qed

lemma request_keeps_invariant:
  assumes "uniqueIds st" and "noDoubleBooking st" and "\<not> activatesWithoutCheck r"
  shows "noDoubleBooking (handle st r) \<and> uniqueIds (handle st r)"
proof (cases r)
  case (Create usr now b)
  with assms create_preserves [of st usr now b] show ?thesis by simp
next
  case (Update usr now i b)
  with assms update_keeps_invariant [of st usr now i b] show ?thesis by simp
qed

subsection \<open>The failures of the time block\<close>

lemma checkTechnicianAvailability_errors:
  "checkTechnicianAvailability st tid s e x = Inl err \<Longrightarrow>
     err = TechnicianNotFound \<or> err = TechnicianUnavailable \<or>
     (\<exists>s' e'. err = SchedulingConflict s' e')"
  by (auto simp: checkTechnicianAvailability_def split: option.splits if_splits list.splits)

lemma verifyTimeFields_errors:
  "verifyTimeFields st usr now a b = Some err \<Longrightarrow>
     err = StartTimeInPast \<or> err = TechnicianNotFound \<or> err = TechnicianUnavailable \<or>
     (\<exists>s' e'. err = SchedulingConflict s' e')"
  by (auto simp: verifyTimeFields_def Let_def split: if_splits sum.splits
      dest: checkTechnicianAvailability_errors)

subsection \<open>A cancel that writes\<close>

lemma cancelAppointment_write:
  assumes "findById st i = Some a" and "cancelAppointmentSchema reason"
    and "hasAccess usr a" and "status a \<noteq> Canceled"
    and "actor_role usr = Admin \<or> now \<le> startTime a - 24 * 60 * 60 * 1000"
  shows "\<exists>a' st'. cancelAppointment st usr now i reason = (Inr (Some a'), st') \<and>
           findById st' i = Some a' \<and> status a' = Canceled \<and>
           client a' = client a \<and> technician a' = technician a \<and>
           startTime a' = startTime a \<and> endTime a' = endTime a"
proof -
  let ?f = "\<lambda>a. a\<lparr> status := Canceled,
                     cancellationReason :=
                       Some (case reason of
                               None \<Rightarrow> utf16 ''No reason provided''
                             | Some r \<Rightarrow> if r = [] then utf16 ''No reason provided'' else r) \<rparr>"
  let ?st' = "st\<lparr>appointments := writeById i ?f (appointments st)\<rparr>"
  from assms(1) have ai: "appt_id a = i" by (simp add: findById_SomeD)
  have f': "findById ?st' i = Some (?f a)"
    using assms(1) ai find_writeById [of i "appointments st" a ?f]
    by (simp add: findById_def)
  have "cancelAppointment st usr now i reason = (Inr (findById ?st' i), ?st')"
    using assms by (auto simp: cancelAppointment_def Let_def)
  with f' show ?thesis by simp
qed

subsection \<open>The slot loop\<close>

lemma set_setAdd: "set (setAdd x xs) = insert x (set xs)"
  by (auto simp: setAdd_def)

text \<open>
  What the slot loop marks, for any appointment: the working-hour labels of the hours from
  the start's UTC hour to the end's UTC hour, the end's hour left out when the end has
  zero minutes. Only hours of the day enter, never the dates.
\<close>

lemma markHours_set:
  "set (markHours hour lastHour bookedSlots) =
     set bookedSlots \<union>
     {timeSlot k | k. hour \<le> k \<and> k \<le> lastHour \<and> timeSlot k \<in> set workingHours}"
proof (induction hour lastHour bookedSlots rule: markHours.induct)
  case (1 hour lastHour bookedSlots)
  show ?case
  proof (cases "hour \<le> lastHour")
    case False
    then show ?thesis by (subst markHours.simps) auto
  next
    case True
    have split: "{k. hour \<le> k \<and> k \<le> lastHour} = insert hour {k. hour + 1 \<le> k \<and> k \<le> lastHour}"
      using True by auto
    have "{timeSlot k | k. hour \<le> k \<and> k \<le> lastHour \<and> timeSlot k \<in> set workingHours}
            = (if timeSlot hour \<in> set workingHours then {timeSlot hour} else {}) \<union>
              {timeSlot k | k. hour + 1 \<le> k \<and> k \<le> lastHour \<and> timeSlot k \<in> set workingHours}"
      (is "?L = ?R")
    proof
      show "?L \<subseteq> ?R"
      proof
        fix x assume "x \<in> ?L"
        then obtain k where k: "x = timeSlot k" "hour \<le> k" "k \<le> lastHour"
          "timeSlot k \<in> set workingHours" by blast
        show "x \<in> ?R"
        proof (cases "k = hour")
          case True
          with k show ?thesis by simp
        next
          case False
          with k have "hour + 1 \<le> k" by simp
          with k show ?thesis by blast
        qed
      qed
      show "?R \<subseteq> ?L" using True by (auto split: if_splits)
    qed
    with True 1 show ?thesis
      by (subst markHours.simps) (auto simp: set_setAdd split: if_splits)
  qed
qed

lemma markAppointment_set:
  "set (markAppointment bookedSlots appt) =
     set bookedSlots \<union>
     {timeSlot k | k.
        getUTCHours (startTime appt) \<le> k \<and>
        k \<le> (if getUTCMinutes (endTime appt) > 0 then getUTCHours (endTime appt)
              else getUTCHours (endTime appt) - 1) \<and>
        timeSlot k \<in> set workingHours}"
  unfolding markAppointment_def Let_def by (rule markHours_set)

section \<open>The claims\<close>

subsection \<open>C1: no double booking\<close>

text \<open>
  What holds: from a store with unique ids in which no two active appointments of one
  technician overlap, every sequential run of create and update requests, none of them an
  admin's re-activation without time fields, ends in such a store again.
\<close>

lemma requests_keep_invariant:
  assumes "uniqueIds st" and "noDoubleBooking st"
    and "list_all (\<lambda>r. \<not> activatesWithoutCheck r) rs"
  shows "noDoubleBooking (runRequests st rs)"
  using assms
proof (induction rs arbitrary: st)
  case Nil
  then show ?case by simp
next
  case (Cons r rs)
  from Cons.prems have "noDoubleBooking (handle st r) \<and> uniqueIds (handle st r)"
    by (intro request_keeps_invariant) simp_all
  with Cons show ?case by simp
qed

text \<open>
  A run of that kind: two touching bookings, a third one rejected for its conflict, and an
  admin moving the first booking to a free hour.
\<close>

lemma sampleRequests_run:
  "map (\<lambda>a. (appt_id a, startTime a - day0, endTime a - day0, status a))
       (appointments (runRequests (sampleStore []) sampleRequests))
    = [(1, hm 11 0, hm 12 0, InProgress), (2, hm 10 0, hm 11 0, Scheduled)]"
  by (simp add: sampleRequests_def create_eval update_eval sample_defs trim_def)

text \<open>
  Claim C1 on a run in which the admin re-activates: every request is accepted, no conflict
  check fails (the two updates carry no time fields, so the route never calls it), and the
  store ends with two scheduled appointments of technician 7 on the same hour.
\<close>

lemma reactivation_run:
  "runRequests (sampleStore []) reactivationRequests
     = sampleStore
         [(sampleAppointment 1 (day0 + hm 9 0) (day0 + hm 10 0) Scheduled)
            \<lparr>actualDuration := Some 60\<rparr>,
          sampleAppointment 2 (day0 + hm 9 0) (day0 + hm 10 0) Scheduled]"
  by (simp add: reactivationRequests_def create_eval update_eval sample_defs)

lemma reactivation_accepted: "allAccepted (sampleStore []) reactivationRequests"
  by (simp add: reactivationRequests_def create_eval update_eval sample_defs)

text \<open>
  Claim C1 fails on the code: every request of the run above is accepted, and the store it
  leaves holds two appointments of technician 7, both scheduled, on the same interval
  09:00 to 10:00, which overlaps itself.
\<close>

theorem C1_reactivation_double_books:
  "allAccepted (sampleStore []) reactivationRequests \<and>
   map (\<lambda>a. (appt_id a, technician a, startTime a, endTime a, status a))
       (appointments (runRequests (sampleStore []) reactivationRequests))
     = [(1, 7, day0 + hm 9 0, day0 + hm 10 0, Scheduled),
        (2, 7, day0 + hm 9 0, day0 + hm 10 0, Scheduled)] \<and>
   spec_overlaps (day0 + hm 9 0, day0 + hm 10 0) (day0 + hm 9 0, day0 + hm 10 0)"
proof (intro conjI)
  show "allAccepted (sampleStore []) reactivationRequests" by (rule reactivation_accepted)
  show "map (\<lambda>a. (appt_id a, technician a, startTime a, endTime a, status a))
       (appointments (runRequests (sampleStore []) reactivationRequests))
     = [(1, 7, day0 + hm 9 0, day0 + hm 10 0, Scheduled),
        (2, 7, day0 + hm 9 0, day0 + hm 10 0, Scheduled)]"
    unfolding reactivation_run by (simp add: sampleStore_def sampleAppointment_def)
  show "spec_overlaps (day0 + hm 9 0, day0 + hm 10 0) (day0 + hm 9 0, day0 + hm 10 0)"
    by (simp add: spec_overlaps_def hm_def)
qed

text \<open>So the invariant is false in the store the run leaves.\<close>

lemma reactivation_breaks_invariant:
  "\<not> noDoubleBooking (runRequests (sampleStore []) reactivationRequests)"
  unfolding reactivation_run
  by (simp add: noDoubleBooking_def active_def spec_overlaps_def interval_def
      sampleStore_def sampleAppointment_def hm_def)

subsection \<open>C2: the overlap predicate\<close>

text \<open>
  Claim C2. The conflict query selects a stored appointment of the technician exactly when
  \<open>A.start < B.end\<close> and \<open>B.start < A.end\<close>, both strict; the overlap predicate is
  symmetric; an interval ending at \<open>t\<close> and one starting at \<open>t\<close> do not overlap. For an
  active, available technician the check returns the technician exactly when no stored
  appointment of the technician, not canceled or completed, overlaps the candidate, and
  fails with \<open>SchedulingConflict\<close> exactly when one does; the interval it reports is that
  of such an appointment. A create request that is authorized and schema-valid fails with
  \<open>SchedulingConflict\<close>, the store unchanged, when such an appointment overlaps it, and an
  appointment is created only when none does. Of two create requests for the same
  technician that touch at \<open>t\<close> and that the store accepts one by one, each is still
  accepted after the other has been created.
\<close>

theorem C2_overlap_predicate:
  "(a \<in> set (filter (conflictQuery tid s e None) as) \<longleftrightarrow>
      a \<in> set as \<and> technician a = tid \<and> status a \<notin> {Canceled, Completed} \<and>
      startTime a < e \<and> s < endTime a) \<and>
   (conflictQuery tid s e None a \<longleftrightarrow>
      technician a = tid \<and> active a \<and> spec_overlaps (interval a) (s, e)) \<and>
   (spec_overlaps A B \<longleftrightarrow> spec_overlaps B A) \<and>
   (\<not> spec_overlaps (s, t) (t, e)) \<and> (\<not> spec_overlaps (t, e) (s, t)) \<and>
   (findTechnician st tid = Some tech \<and> availability tech = Available
    \<longrightarrow> (checkTechnicianAvailability st tid s e None = Inr tech \<longleftrightarrow>
           \<not> (\<exists>c \<in> set (appointments st).
                 technician c = tid \<and> status c \<notin> {Canceled, Completed} \<and>
                 startTime c < e \<and> s < endTime c)) \<and>
        ((\<exists>s' e'. checkTechnicianAvailability st tid s e None = Inl (SchedulingConflict s' e'))
           \<longleftrightarrow> (\<exists>c \<in> set (appointments st).
                 technician c = tid \<and> status c \<notin> {Canceled, Completed} \<and>
                 startTime c < e \<and> s < endTime c))) \<and>
   (checkTechnicianAvailability st tid s e None = Inl (SchedulingConflict s' e')
    \<longrightarrow> (\<exists>c \<in> set (appointments st).
           technician c = tid \<and> status c \<notin> {Canceled, Completed} \<and>
           startTime c < e \<and> s < endTime c \<and> s' = startTime c \<and> e' = endTime c)) \<and>
   (actor_role usr \<in> {Customer, Admin} \<and> createAppointmentSchema now b \<and>
    findTechnician st (c_technicianId b) = Some tech \<and> availability tech = Available \<and>
    c \<in> set (appointments st) \<and> technician c = c_technicianId b \<and>
    status c \<notin> {Canceled, Completed} \<and>
    startTime c < c_endTime b \<and> c_startTime b < endTime c
    \<longrightarrow> (\<exists>s' e'. createAppointment st usr now b = (Inl (SchedulingConflict s' e'), st))) \<and>
   (createAppointment st usr now b = (Inr n, st')
    \<longrightarrow> \<not> (\<exists>c \<in> set (appointments st).
              technician c = c_technicianId b \<and> status c \<notin> {Canceled, Completed} \<and>
              startTime c < c_endTime b \<and> c_startTime b < endTime c)) \<and>
   (createAppointment st usrA nowA bA = (Inr a1, st1) \<and>
    createAppointment st usrB nowB bB = (Inr a2, st2) \<and>
    c_technicianId bA = c_technicianId bB \<and> c_endTime bA = c_startTime bB
    \<longrightarrow> (\<exists>a2' st12. createAppointment st1 usrB nowB bB = (Inr a2', st12) \<and>
            interval a2' = interval a2 \<and> a1 \<in> set (appointments st12) \<and>
            a2' \<in> set (appointments st12)) \<and>
        (\<exists>a1' st21. createAppointment st2 usrA nowA bA = (Inr a1', st21) \<and>
            interval a1' = interval a1 \<and> a1' \<in> set (appointments st21) \<and>
            a2 \<in> set (appointments st21)))"
proof (intro conjI)
  have q: "conflictQuery tx sa ea None c \<longleftrightarrow>
      technician c = tx \<and> status c \<notin> {Canceled, Completed} \<and> startTime c < ea \<and> sa < endTime c"
    for tx sa ea c
    by (auto simp: conflictQuery_def)
  show "a \<in> set (filter (conflictQuery tid s e None) as) \<longleftrightarrow>
      a \<in> set as \<and> technician a = tid \<and> status a \<notin> {Canceled, Completed} \<and>
      startTime a < e \<and> s < endTime a"
    by (auto simp: conflictQuery_def)
  show "conflictQuery tid s e None a \<longleftrightarrow>
      technician a = tid \<and> active a \<and> spec_overlaps (interval a) (s, e)"
    by (simp add: conflictQuery_overlaps)
  show "spec_overlaps A B \<longleftrightarrow> spec_overlaps B A"
    by (auto simp: spec_overlaps_def)
  show "\<not> spec_overlaps (s, t) (t, e)" and "\<not> spec_overlaps (t, e) (s, t)"
    by (simp_all add: spec_overlaps_def)
  have ok: "checkTechnicianAvailability st tid s e None = Inr tech \<longleftrightarrow>
           \<not> (\<exists>c \<in> set (appointments st).
                 technician c = tid \<and> status c \<notin> {Canceled, Completed} \<and>
                 startTime c < e \<and> s < endTime c)"
    if "findTechnician st tid = Some tech \<and> availability tech = Available"
    using that by (auto simp: checkTechnicianAvailability_Inr_iff q)
  have rep: "\<exists>c \<in> set (appointments st).
           technician c = tx \<and> status c \<notin> {Canceled, Completed} \<and>
           startTime c < ea \<and> sa < endTime c \<and> s' = startTime c \<and> e' = endTime c"
    if "checkTechnicianAvailability st tx sa ea None = Inl (SchedulingConflict s' e')"
    for tx sa ea s' e'
    using that
    by (auto simp: checkTechnicianAvailability_def q
        split: option.splits if_splits list.splits dest!: filter_ConsD)
  have fail: "\<exists>s' e'. checkTechnicianAvailability st tx sa ea None
                 = Inl (SchedulingConflict s' e')"
    if "findTechnician st tx = Some tech" "availability tech = Available"
      "c \<in> set (appointments st)" "technician c = tx" "status c \<notin> {Canceled, Completed}"
      "startTime c < ea" "sa < endTime c"
    for tx sa ea c
  proof -
    from that have "c \<in> set (filter (conflictQuery tx sa ea None) (appointments st))"
      by (simp add: q)
    then obtain y ys where "filter (conflictQuery tx sa ea None) (appointments st) = y # ys"
      by (cases "filter (conflictQuery tx sa ea None) (appointments st)") auto
    with that show ?thesis by (simp add: checkTechnicianAvailability_def)
  qed
  have iff: "(\<exists>s' e'. checkTechnicianAvailability st tid s e None = Inl (SchedulingConflict s' e'))
           \<longleftrightarrow> (\<exists>c \<in> set (appointments st).
                 technician c = tid \<and> status c \<notin> {Canceled, Completed} \<and>
                 startTime c < e \<and> s < endTime c)"
    if "findTechnician st tid = Some tech \<and> availability tech = Available"
    using that rep [where tx = tid and sa = s and ea = e]
      fail [where tx = tid and sa = s and ea = e] by blast
  have create_fail: "\<exists>s' e'. createAppointment st usr now b = (Inl (SchedulingConflict s' e'), st)"
    if h: "actor_role usr \<in> {Customer, Admin} \<and> createAppointmentSchema now b \<and>
    findTechnician st (c_technicianId b) = Some tech \<and> availability tech = Available \<and>
    c \<in> set (appointments st) \<and> technician c = c_technicianId b \<and>
    status c \<notin> {Canceled, Completed} \<and>
    startTime c < c_endTime b \<and> c_startTime b < endTime c"
  proof -
    from h fail [where tx = "c_technicianId b" and c = c and sa = "c_startTime b"
        and ea = "c_endTime b"] obtain s' e' where
      "checkTechnicianAvailability st (c_technicianId b) (c_startTime b) (c_endTime b) None
         = Inl (SchedulingConflict s' e')"
      by blast
    with h show ?thesis by (auto simp: createAppointment_def)
  qed
  have create_ok: "\<not> (\<exists>c \<in> set (appointments st).
              technician c = c_technicianId b \<and> status c \<notin> {Canceled, Completed} \<and>
              startTime c < c_endTime b \<and> c_startTime b < endTime c)"
    if "createAppointment st usr now b = (Inr n, st')"
    using that by (auto simp: createAppointment_Inr_iff checkTechnicianAvailability_Inr_iff q)
  have touching: "(\<exists>a2' st12. createAppointment st1 usrB nowB bB = (Inr a2', st12) \<and>
            interval a2' = interval a2 \<and> a1 \<in> set (appointments st12) \<and>
            a2' \<in> set (appointments st12)) \<and>
        (\<exists>a1' st21. createAppointment st2 usrA nowA bA = (Inr a1', st21) \<and>
            interval a1' = interval a1 \<and> a1' \<in> set (appointments st21) \<and>
            a2 \<in> set (appointments st21))"
    if h: "createAppointment st usrA nowA bA = (Inr a1, st1) \<and>
    createAppointment st usrB nowB bB = (Inr a2, st2) \<and>
    c_technicianId bA = c_technicianId bB \<and> c_endTime bA = c_startTime bB"
  proof -
    from h have A: "createAppointment st usrA nowA bA = (Inr a1, st1)"
      and B: "createAppointment st usrB nowB bB = (Inr a2, st2)"
      and tid: "c_technicianId bA = c_technicianId bB"
      and touch: "c_endTime bA = c_startTime bB"
      by simp_all
    from A have a1: "a1 = newAppointment (newObjectId (appointments st)) usrA bA"
      and st1: "st1 = st\<lparr>appointments := appointments st @ [a1]\<rparr>"
      by (simp_all add: createAppointment_Inr_iff)
    from B have a2: "a2 = newAppointment (newObjectId (appointments st)) usrB bB"
      and st2: "st2 = st\<lparr>appointments := appointments st @ [a2]\<rparr>"
      by (simp_all add: createAppointment_Inr_iff)
    have na1: "\<not> conflictQuery (c_technicianId bB) (c_startTime bB) (c_endTime bB) None a1"
      using touch by (simp add: a1 conflictQuery_def newAppointment_def)
    have na2: "\<not> conflictQuery (c_technicianId bA) (c_startTime bA) (c_endTime bA) None a2"
      using touch by (simp add: a2 conflictQuery_def newAppointment_def)
    let ?a2' = "newAppointment (newObjectId (appointments st1)) usrB bB"
    let ?a1' = "newAppointment (newObjectId (appointments st2)) usrA bA"
    have v2: "validateNew ?a2'"
      using B by (auto simp: createAppointment_Inr_iff intro: validateNew_newAppointment)
    have v1: "validateNew ?a1'"
      using A by (auto simp: createAppointment_Inr_iff intro: validateNew_newAppointment)
    have c2: "createAppointment st1 usrB nowB bB =
        (Inr ?a2', st1\<lparr>appointments := appointments st1 @ [?a2']\<rparr>)"
      using B na1 v2
      by (auto simp: createAppointment_Inr_iff checkTechnicianAvailability_Inr_iff st1)
    have c1: "createAppointment st2 usrA nowA bA =
        (Inr ?a1', st2\<lparr>appointments := appointments st2 @ [?a1']\<rparr>)"
      using A na2 v1
      by (auto simp: createAppointment_Inr_iff checkTechnicianAvailability_Inr_iff st2)
    have "\<exists>a2' st12. createAppointment st1 usrB nowB bB = (Inr a2', st12) \<and>
              interval a2' = interval a2 \<and> a1 \<in> set (appointments st12) \<and>
              a2' \<in> set (appointments st12)"
      using c2 by (simp add: interval_def a2 newAppointment_def st1)
    moreover have "\<exists>a1' st21. createAppointment st2 usrA nowA bA = (Inr a1', st21) \<and>
              interval a1' = interval a1 \<and> a1' \<in> set (appointments st21) \<and>
              a2 \<in> set (appointments st21)"
      using c1 by (simp add: interval_def a1 newAppointment_def st2)
    ultimately show ?thesis by blast
  qed
  show "findTechnician st tid = Some tech \<and> availability tech = Available
    \<longrightarrow> (checkTechnicianAvailability st tid s e None = Inr tech \<longleftrightarrow>
           \<not> (\<exists>c \<in> set (appointments st).
                 technician c = tid \<and> status c \<notin> {Canceled, Completed} \<and>
                 startTime c < e \<and> s < endTime c)) \<and>
        ((\<exists>s' e'. checkTechnicianAvailability st tid s e None = Inl (SchedulingConflict s' e'))
           \<longleftrightarrow> (\<exists>c \<in> set (appointments st).
                 technician c = tid \<and> status c \<notin> {Canceled, Completed} \<and>
                 startTime c < e \<and> s < endTime c))"
    using ok iff by (intro impI conjI)
  show "checkTechnicianAvailability st tid s e None = Inl (SchedulingConflict s' e')
    \<longrightarrow> (\<exists>c \<in> set (appointments st).
           technician c = tid \<and> status c \<notin> {Canceled, Completed} \<and>
           startTime c < e \<and> s < endTime c \<and> s' = startTime c \<and> e' = endTime c)"
    using rep [where tx = tid and sa = s and ea = e and s' = s' and e' = e'] by (intro impI)
  show "actor_role usr \<in> {Customer, Admin} \<and> createAppointmentSchema now b \<and>
    findTechnician st (c_technicianId b) = Some tech \<and> availability tech = Available \<and>
    c \<in> set (appointments st) \<and> technician c = c_technicianId b \<and>
    status c \<notin> {Canceled, Completed} \<and>
    startTime c < c_endTime b \<and> c_startTime b < endTime c
    \<longrightarrow> (\<exists>s' e'. createAppointment st usr now b = (Inl (SchedulingConflict s' e'), st))"
    using create_fail by (intro impI)
  show "createAppointment st usr now b = (Inr n, st')
    \<longrightarrow> \<not> (\<exists>c \<in> set (appointments st).
              technician c = c_technicianId b \<and> status c \<notin> {Canceled, Completed} \<and>
              startTime c < c_endTime b \<and> c_startTime b < endTime c)"
    using create_ok by (intro impI)
  show "createAppointment st usrA nowA bA = (Inr a1, st1) \<and>
    createAppointment st usrB nowB bB = (Inr a2, st2) \<and>
    c_technicianId bA = c_technicianId bB \<and> c_endTime bA = c_startTime bB
    \<longrightarrow> (\<exists>a2' st12. createAppointment st1 usrB nowB bB = (Inr a2', st12) \<and>
            interval a2' = interval a2 \<and> a1 \<in> set (appointments st12) \<and>
            a2' \<in> set (appointments st12)) \<and>
        (\<exists>a1' st21. createAppointment st2 usrA nowA bA = (Inr a1', st21) \<and>
            interval a1' = interval a1 \<and> a1' \<in> set (appointments st21) \<and>
            a2 \<in> set (appointments st21))"
    using touching by (intro impI)
qed


theorem C2_witness:
  "createAppointment (sampleStore []) customer3 day0
      (sampleCreate (day0 + hm 9 0) (day0 + hm 10 0) None)
     = (Inr (newAppointment 1 customer3 (sampleCreate (day0 + hm 9 0) (day0 + hm 10 0) None)),
        sampleStore [newAppointment 1 customer3
                       (sampleCreate (day0 + hm 9 0) (day0 + hm 10 0) None)]) \<and>
   createAppointment (sampleStore []) customer3 day0
      (sampleCreate (day0 + hm 10 0) (day0 + hm 11 0) None)
     = (Inr (newAppointment 1 customer3 (sampleCreate (day0 + hm 10 0) (day0 + hm 11 0) None)),
        sampleStore [newAppointment 1 customer3
                       (sampleCreate (day0 + hm 10 0) (day0 + hm 11 0) None)]) \<and>
   c_technicianId (sampleCreate (day0 + hm 9 0) (day0 + hm 10 0) None)
     = c_technicianId (sampleCreate (day0 + hm 10 0) (day0 + hm 11 0) None) \<and>
   c_endTime (sampleCreate (day0 + hm 9 0) (day0 + hm 10 0) None)
     = c_startTime (sampleCreate (day0 + hm 10 0) (day0 + hm 11 0) None) \<and>
   (\<exists>a2' st12.
      createAppointment
        (sampleStore [newAppointment 1 customer3
                        (sampleCreate (day0 + hm 9 0) (day0 + hm 10 0) None)])
        customer3 day0 (sampleCreate (day0 + hm 10 0) (day0 + hm 11 0) None)
       = (Inr a2', st12) \<and>
      interval a2' = (day0 + hm 10 0, day0 + hm 11 0)) \<and>
   findTechnician (sampleStore [sampleAppointment 1 (day0 + hm 9 0) (day0 + hm 10 0) Scheduled]) 7
     = Some technician7 \<and>
   availability technician7 = Available \<and>
   (\<exists>s' e'.
      checkTechnicianAvailability
        (sampleStore [sampleAppointment 1 (day0 + hm 9 0) (day0 + hm 10 0) Scheduled])
        7 (day0 + hm 9 30) (day0 + hm 10 30) None
       = Inl (SchedulingConflict s' e')) \<and>
   (\<exists>s' e'.
      createAppointment
        (sampleStore [sampleAppointment 1 (day0 + hm 9 0) (day0 + hm 10 0) Scheduled])
        customer3 day0 (sampleCreate (day0 + hm 9 30) (day0 + hm 10 30) None)
       = (Inl (SchedulingConflict s' e'),
          sampleStore [sampleAppointment 1 (day0 + hm 9 0) (day0 + hm 10 0) Scheduled])) \<and>
   createAppointment
     (sampleStore [sampleAppointment 1 (day0 + hm 9 0) (day0 + hm 10 0) Scheduled])
     customer3 day0 (sampleCreate (day0 + hm 9 30) (day0 + hm 10 30) None)
     = (Inl (SchedulingConflict (day0 + hm 9 0) (day0 + hm 10 0)),
        sampleStore [sampleAppointment 1 (day0 + hm 9 0) (day0 + hm 10 0) Scheduled])"
proof -
  let ?bA = "sampleCreate (day0 + hm 9 0) (day0 + hm 10 0) None"
  let ?bB = "sampleCreate (day0 + hm 10 0) (day0 + hm 11 0) None"
  let ?bC = "sampleCreate (day0 + hm 9 30) (day0 + hm 10 30) None"
  let ?x = "sampleAppointment 1 (day0 + hm 9 0) (day0 + hm 10 0) Scheduled"
  have A: "createAppointment (sampleStore []) customer3 day0 ?bA
     = (Inr (newAppointment 1 customer3 ?bA), sampleStore [newAppointment 1 customer3 ?bA])"
    by (simp add: create_eval sample_defs)
  have B: "createAppointment (sampleStore []) customer3 day0 ?bB
     = (Inr (newAppointment 1 customer3 ?bB), sampleStore [newAppointment 1 customer3 ?bB])"
    by (simp add: create_eval sample_defs)
  have t: "c_technicianId ?bA = c_technicianId ?bB" "c_endTime ?bA = c_startTime ?bB"
    by (simp_all add: sampleCreate_def)
  have i: "interval (newAppointment 1 customer3 ?bB) = (day0 + hm 10 0, day0 + hm 11 0)"
    by (simp add: interval_def newAppointment_def sampleCreate_def)
  from C2_overlap_predicate [where st = "sampleStore []" and usrA = customer3 and nowA = day0
      and bA = ?bA and usrB = customer3 and nowB = day0 and bB = ?bB
      and ?a1.0 = "newAppointment 1 customer3 ?bA"
      and ?a2.0 = "newAppointment 1 customer3 ?bB"
      and ?st1.0 = "sampleStore [newAppointment 1 customer3 ?bA]"
      and ?st2.0 = "sampleStore [newAppointment 1 customer3 ?bB]",
      THEN conjunct2, THEN conjunct2, THEN conjunct2, THEN conjunct2, THEN conjunct2, THEN conjunct2, THEN conjunct2, THEN conjunct2, THEN conjunct2]
  have touch: "\<exists>a2' st12.
      createAppointment (sampleStore [newAppointment 1 customer3 ?bA]) customer3 day0 ?bB
       = (Inr a2', st12) \<and>
      interval a2' = interval (newAppointment 1 customer3 ?bB)"
    using A B t by blast
  have g: "findTechnician (sampleStore [?x]) 7 = Some technician7"
    "availability technician7 = Available"
    "actor_role customer3 \<in> {Customer, Admin}" "createAppointmentSchema day0 ?bC"
    "c_technicianId ?bC = 7" "c_startTime ?bC = day0 + hm 9 30" "c_endTime ?bC = day0 + hm 10 30"
    "?x \<in> set (appointments (sampleStore [?x]))" "technician ?x = 7"
    "status ?x \<notin> {Canceled, Completed}"
    "startTime ?x < day0 + hm 10 30" "day0 + hm 9 30 < endTime ?x"
    by (simp_all add: create_eval sample_defs)
  note T = C2_overlap_predicate [where st = "sampleStore [?x]" and tid = 7
      and tech = technician7 and s = "day0 + hm 9 30" and e = "day0 + hm 10 30"
      and usr = customer3 and now = day0 and b = ?bC and c = ?x]
  have chk: "\<exists>s' e'. checkTechnicianAvailability (sampleStore [?x]) 7 (day0 + hm 9 30)
                 (day0 + hm 10 30) None = Inl (SchedulingConflict s' e')"
    using T [THEN conjunct2, THEN conjunct2, THEN conjunct2, THEN conjunct2, THEN conjunct2, THEN conjunct1] g by blast
  have cr: "\<exists>s' e'. createAppointment (sampleStore [?x]) customer3 day0 ?bC
              = (Inl (SchedulingConflict s' e'), sampleStore [?x])"
    using T [THEN conjunct2, THEN conjunct2, THEN conjunct2, THEN conjunct2, THEN conjunct2, THEN conjunct2, THEN conjunct2, THEN conjunct1] g by simp
  have ev: "createAppointment (sampleStore [?x]) customer3 day0 ?bC
     = (Inl (SchedulingConflict (day0 + hm 9 0) (day0 + hm 10 0)), sampleStore [?x])"
    by (simp add: create_eval sample_defs)
  from touch i have touch': "\<exists>a2' st12.
      createAppointment (sampleStore [newAppointment 1 customer3 ?bA]) customer3 day0 ?bB
       = (Inr a2', st12) \<and>
      interval a2' = (day0 + hm 10 0, day0 + hm 11 0)"
    by simp
  from A B t touch' g(1,2) chk cr ev show ?thesis by (intro conjI)
qed

subsection \<open>C3: terminal states\<close>

text \<open>
  Claim C3, as stated, fails for the status no-show: the route only guards completed and
  canceled. The client of a no-show appointment changes its notes.
\<close>

theorem C3_counterexample:
  "status (sampleAppointment 1 (day0 + hm 9 0) (day0 + hm 10 0) NoShow) = NoShow \<and>
   actor_role customer3 = Customer \<and>
   updateAppointment (sampleStore [sampleAppointment 1 (day0 + hm 9 0) (day0 + hm 10 0) NoShow])
       customer3 day0 1 (emptyUpdate\<lparr>u_notes := Some (utf16 ''late'')\<rparr>)
     = (Inr ((sampleAppointment 1 (day0 + hm 9 0) (day0 + hm 10 0) NoShow)
               \<lparr>appt_notes := Some (utf16 ''late'')\<rparr>),
        sampleStore [(sampleAppointment 1 (day0 + hm 9 0) (day0 + hm 10 0) NoShow)
                       \<lparr>appt_notes := Some (utf16 ''late'')\<rparr>])"
  by (simp add: update_eval sample_defs trim_def isWhiteSpace_def utf16_def)

text \<open>
  Claim C3, amended. For an appointment whose status is completed or canceled, every update
  request of a non-admin fails and leaves the store unchanged. The failure is
  \<open>ImmutableState\<close> when the request is schema-valid and the actor is the appointment's
  client or technician; it is \<open>ValidationError\<close> when the request is not schema-valid, and
  \<open>AccessDenied\<close> when it is schema-valid and the actor is neither client nor technician.
  An admin's update never fails with \<open>ImmutableState\<close>.
\<close>

theorem C3_terminal_state_immutability:
  assumes "findById st i = Some a" and "status a \<in> {Completed, Canceled}"
  shows "(actor_role usr \<noteq> Admin \<longrightarrow>
            isl (fst (updateAppointment st usr now i b)) \<and>
            snd (updateAppointment st usr now i b) = st) \<and>
         (actor_role usr \<noteq> Admin \<and> updateAppointmentSchema b \<and> hasAccess usr a \<longrightarrow>
            updateAppointment st usr now i b = (Inl ImmutableState, st)) \<and>
         (actor_role usr \<noteq> Admin \<and> \<not> updateAppointmentSchema b \<longrightarrow>
            updateAppointment st usr now i b = (Inl ValidationError, st)) \<and>
         (actor_role usr \<noteq> Admin \<and> updateAppointmentSchema b \<and> \<not> hasAccess usr a \<longrightarrow>
            updateAppointment st usr now i b = (Inl AccessDenied, st)) \<and>
         (actor_role usr = Admin \<longrightarrow>
            fst (updateAppointment st usr now i b) \<noteq> Inl ImmutableState)"
  using assms
  by (auto simp: updateAppointment_def Let_def split: option.splits
      dest: verifyTimeFields_errors)

theorem C3_witness:
  "findById (sampleStore [sampleAppointment 1 (day0 + hm 9 0) (day0 + hm 10 0) Completed]) 1
     = Some (sampleAppointment 1 (day0 + hm 9 0) (day0 + hm 10 0) Completed) \<and>
   status (sampleAppointment 1 (day0 + hm 9 0) (day0 + hm 10 0) Completed) = Completed \<and>
   updateAppointment (sampleStore [sampleAppointment 1 (day0 + hm 9 0) (day0 + hm 10 0) Completed])
       customer3 day0 1 (emptyUpdate\<lparr>u_notes := Some (utf16 ''late'')\<rparr>)
     = (Inl ImmutableState,
        sampleStore [sampleAppointment 1 (day0 + hm 9 0) (day0 + hm 10 0) Completed]) \<and>
   updateAppointment (sampleStore [sampleAppointment 1 (day0 + hm 9 0) (day0 + hm 10 0) Completed])
       customer3 day0 1 (emptyUpdate\<lparr>u_rating := Some 9\<rparr>)
     = (Inl ValidationError,
        sampleStore [sampleAppointment 1 (day0 + hm 9 0) (day0 + hm 10 0) Completed]) \<and>
   updateAppointment (sampleStore [sampleAppointment 1 (day0 + hm 9 0) (day0 + hm 10 0) Completed])
       customer4 day0 1 (emptyUpdate\<lparr>u_notes := Some (utf16 ''late'')\<rparr>)
     = (Inl AccessDenied,
        sampleStore [sampleAppointment 1 (day0 + hm 9 0) (day0 + hm 10 0) Completed]) \<and>
   updateAppointment (sampleStore [sampleAppointment 1 (day0 + hm 9 0) (day0 + hm 10 0) Completed])
       admin1 day0 1 (emptyUpdate\<lparr>u_notes := Some (utf16 ''late'')\<rparr>)
     = (Inr ((sampleAppointment 1 (day0 + hm 9 0) (day0 + hm 10 0) Completed)
               \<lparr>appt_notes := Some (utf16 ''late'')\<rparr>),
        sampleStore [(sampleAppointment 1 (day0 + hm 9 0) (day0 + hm 10 0) Completed)
                       \<lparr>appt_notes := Some (utf16 ''late'')\<rparr>])"
proof -
  let ?a = "sampleAppointment 1 (day0 + hm 9 0) (day0 + hm 10 0) Completed"
  let ?b = "emptyUpdate\<lparr>u_notes := Some (utf16 ''late'')\<rparr>"
  let ?bad = "emptyUpdate\<lparr>u_rating := Some 9\<rparr>"
  have f: "findById (sampleStore [?a]) 1 = Some ?a"
    by (simp add: findById_def sampleStore_def sampleAppointment_def)
  have t: "status ?a \<in> {Completed, Canceled}" and t': "status ?a = Completed"
    by (simp_all add: sampleAppointment_def)
  have g: "actor_role customer3 \<noteq> Admin" "updateAppointmentSchema ?b" "hasAccess customer3 ?a"
    "\<not> updateAppointmentSchema ?bad" "actor_role customer4 \<noteq> Admin" "\<not> hasAccess customer4 ?a"
    by (simp_all add: update_eval sample_defs utf16_def)
  note T = C3_terminal_state_immutability [OF f t]
  have r: "updateAppointment (sampleStore [?a]) customer3 day0 1 ?b
             = (Inl ImmutableState, sampleStore [?a])"
    using T [where usr = customer3 and b = ?b and now = day0] g by blast
  have v: "updateAppointment (sampleStore [?a]) customer3 day0 1 ?bad
             = (Inl ValidationError, sampleStore [?a])"
    using T [where usr = customer3 and b = ?bad and now = day0] g by blast
  have d: "updateAppointment (sampleStore [?a]) customer4 day0 1 ?b
             = (Inl AccessDenied, sampleStore [?a])"
    using T [where usr = customer4 and b = ?b and now = day0] g by blast
  have ad: "updateAppointment (sampleStore [?a]) admin1 day0 1 ?b
     = (Inr (?a\<lparr>appt_notes := Some (utf16 ''late'')\<rparr>),
        sampleStore [?a\<lparr>appt_notes := Some (utf16 ''late'')\<rparr>])"
    by (simp add: update_eval sample_defs trim_def isWhiteSpace_def utf16_def)
  from f t' r v d ad show ?thesis by blast
qed

subsection \<open>C4: booked slots\<close>

text \<open>
  The two examples of claim C4, on one day: 09:00 to 11:30 books 09:00, 10:00 and 11:00;
  09:00 to 11:00 books 09:00 and 10:00.
\<close>

lemma availability_examples:
  "technicianAvailability
     (sampleStore [sampleAppointment 1 (day0 + hm 9 0) (day0 + hm 11 30) Scheduled]) 7 day0
     = Inr ([''09:00'', ''10:00'', ''11:00''],
            [''12:00'', ''13:00'', ''14:00'', ''15:00'', ''16:00''])"
  "technicianAvailability
     (sampleStore [sampleAppointment 1 (day0 + hm 9 0) (day0 + hm 11 0) Scheduled]) 7 day0
     = Inr ([''09:00'', ''10:00''],
            [''11:00'', ''12:00'', ''13:00'', ''14:00'', ''15:00'', ''16:00''])"
  by (simp_all add: availability_eval sample_defs)

text \<open>
  An appointment from 22:00 to 10:30 of the next day is accepted by the create route when
  the request supplies an \<open>estimatedDuration\<close>.
\<close>

lemma overnight_appointment_creatable:
  "createAppointment (sampleStore []) customer3 day0
       (sampleCreate (day0 + hm 22 0) (day0 + hm 34 30) (Some 60))
     = (Inr (sampleAppointment 1 (day0 + hm 22 0) (day0 + hm 34 30) Scheduled),
        sampleStore [sampleAppointment 1 (day0 + hm 22 0) (day0 + hm 34 30) Scheduled])"
  by (simp add: create_eval sample_defs)

text \<open>
  Claim C4 at an appointment that starts before the requested day: 2024-01-01 22:00 to
  2024-01-02 10:30, requested day 2024-01-02. The query fetches it (its end lies within the
  day), the slots 09:00 and 10:00 of that day start within the appointment, and the route
  marks no slot booked: the loop runs from hour 22 up to hour 10.
\<close>

theorem C4_overnight_appointment_not_marked:
  "dayQuery 7 (startOfDay (day0 + hm 24 0)) (endOfDay (day0 + hm 24 0))
     (sampleAppointment 1 (day0 + hm 22 0) (day0 + hm 34 30) Scheduled) \<and>
   startTime (sampleAppointment 1 (day0 + hm 22 0) (day0 + hm 34 30) Scheduled)
     \<le> startOfDay (day0 + hm 24 0) + hm 9 0 \<and>
   startOfDay (day0 + hm 24 0) + hm 10 0
     < endTime (sampleAppointment 1 (day0 + hm 22 0) (day0 + hm 34 30) Scheduled) \<and>
   technicianAvailability
     (sampleStore [sampleAppointment 1 (day0 + hm 22 0) (day0 + hm 34 30) Scheduled])
     7 (day0 + hm 24 0)
     = Inr ([], [''09:00'', ''10:00'', ''11:00'', ''12:00'', ''13:00'', ''14:00'', ''15:00'',
                 ''16:00''])"
  by (simp add: availability_eval sample_defs)

text \<open>
  The same for an appointment spanning the whole requested day, 20:00 of the day before to
  08:00 of the day after: fetched by the third case of the query, no slot marked.
\<close>

lemma whole_day_appointment_not_marked:
  "dayCases (startOfDay (day0 + hm 24 0)) (endOfDay (day0 + hm 24 0))
     (day0 + hm 20 0) (day0 + hm 56 0) \<and>
   technicianAvailability
     (sampleStore [sampleAppointment 1 (day0 + hm 20 0) (day0 + hm 56 0) Scheduled])
     7 (day0 + hm 24 0)
     = Inr ([], [''09:00'', ''10:00'', ''11:00'', ''12:00'', ''13:00'', ''14:00'', ''15:00'',
                 ''16:00''])"
  by (simp add: availability_eval sample_defs)

subsection \<open>C5: cancellation window\<close>

text \<open>
  Claim C5, as stated, fails on the kind of the failure: a non-admin who is neither the
  client nor the technician of the appointment and cancels 23 hours before its start is
  turned away by the permission check, with \<open>AccessDenied\<close>, before the window is looked at.
\<close>

theorem C5_counterexample:
  "actor_role customer4 = Customer \<and>
   status (sampleAppointment 1 (day0 + hm 23 0) (day0 + hm 24 0) Scheduled) = Scheduled \<and>
   day0 > startTime (sampleAppointment 1 (day0 + hm 23 0) (day0 + hm 24 0) Scheduled)
            - 24 * 60 * 60 * 1000 \<and>
   cancelAppointment (sampleStore [sampleAppointment 1 (day0 + hm 23 0) (day0 + hm 24 0) Scheduled])
       customer4 day0 1 None
     = (Inl AccessDenied,
        sampleStore [sampleAppointment 1 (day0 + hm 23 0) (day0 + hm 24 0) Scheduled])"
  by (simp add: cancel_eval sample_defs)

text \<open>
  Claim C5, amended. For a schema-valid cancel request on an appointment that is not
  canceled: a non-admin's cancel succeeds only if \<open>now <= startTime - 24h\<close>; a non-admin
  who is the appointment's client or technician succeeds when \<open>now <= startTime - 24h\<close>
  and otherwise fails with \<open>CancellationWindowExpired\<close>, the store unchanged; any other
  non-admin fails with \<open>AccessDenied\<close>, the store unchanged; an admin's cancel is never
  rejected by the window and succeeds at any time.
\<close>

theorem C5_cancellation_window:
  assumes "findById st i = Some a" and "status a \<noteq> Canceled"
    and "cancelAppointmentSchema reason"
  shows "(actor_role usr \<noteq> Admin \<and> \<not> isl (fst (cancelAppointment st usr now i reason))
            \<longrightarrow> now \<le> startTime a - 24 * 60 * 60 * 1000) \<and>
         (actor_role usr \<noteq> Admin \<and> hasAccess usr a \<and> now \<le> startTime a - 24 * 60 * 60 * 1000
            \<longrightarrow> (\<exists>a' st'. cancelAppointment st usr now i reason = (Inr (Some a'), st') \<and>
                   findById st' i = Some a' \<and> status a' = Canceled)) \<and>
         (actor_role usr \<noteq> Admin \<and> hasAccess usr a \<and> now > startTime a - 24 * 60 * 60 * 1000
            \<longrightarrow> cancelAppointment st usr now i reason = (Inl CancellationWindowExpired, st)) \<and>
         (actor_role usr \<noteq> Admin \<and> \<not> hasAccess usr a
            \<longrightarrow> cancelAppointment st usr now i reason = (Inl AccessDenied, st)) \<and>
         (actor_role usr = Admin
            \<longrightarrow> (\<exists>a' st'. cancelAppointment st usr now i reason = (Inr (Some a'), st') \<and>
                   findById st' i = Some a' \<and> status a' = Canceled))"
proof (intro conjI impI)
  assume "actor_role usr \<noteq> Admin \<and> \<not> isl (fst (cancelAppointment st usr now i reason))"
  with assms show "now \<le> startTime a - 24 * 60 * 60 * 1000"
    by (auto simp: cancelAppointment_def Let_def split: if_splits)
next
  assume "actor_role usr \<noteq> Admin \<and> hasAccess usr a \<and> now \<le> startTime a - 24 * 60 * 60 * 1000"
  with cancelAppointment_write [OF assms(1) assms(3), of usr now] assms(2)
  show "\<exists>a' st'. cancelAppointment st usr now i reason = (Inr (Some a'), st') \<and>
                   findById st' i = Some a' \<and> status a' = Canceled"
    by blast
next
  assume "actor_role usr \<noteq> Admin \<and> hasAccess usr a \<and> now > startTime a - 24 * 60 * 60 * 1000"
  with assms show "cancelAppointment st usr now i reason = (Inl CancellationWindowExpired, st)"
    by (simp add: cancelAppointment_def)
next
  assume "actor_role usr \<noteq> Admin \<and> \<not> hasAccess usr a"
  with assms show "cancelAppointment st usr now i reason = (Inl AccessDenied, st)"
    by (simp add: cancelAppointment_def)
next
  assume "actor_role usr = Admin"
  then have "hasAccess usr a" by (simp add: hasAccess_def)
  with cancelAppointment_write [OF assms(1) assms(3), of usr now] assms(2) \<open>actor_role usr = Admin\<close>
  show "\<exists>a' st'. cancelAppointment st usr now i reason = (Inr (Some a'), st') \<and>
                   findById st' i = Some a' \<and> status a' = Canceled"
    by blast
qed

theorem C5_witness:
  "findById (sampleStore [sampleAppointment 1 (day0 + hm 23 0) (day0 + hm 24 0) Scheduled]) 1
     = Some (sampleAppointment 1 (day0 + hm 23 0) (day0 + hm 24 0) Scheduled) \<and>
   status (sampleAppointment 1 (day0 + hm 23 0) (day0 + hm 24 0) Scheduled) \<noteq> Canceled \<and>
   cancelAppointmentSchema None \<and>
   cancelAppointment (sampleStore [sampleAppointment 1 (day0 + hm 23 0) (day0 + hm 24 0) Scheduled])
       customer3 day0 1 None
     = (Inl CancellationWindowExpired,
        sampleStore [sampleAppointment 1 (day0 + hm 23 0) (day0 + hm 24 0) Scheduled]) \<and>
   (\<exists>a' st'.
      cancelAppointment
          (sampleStore [sampleAppointment 1 (day0 + hm 23 0) (day0 + hm 24 0) Scheduled])
          admin1 day0 1 None
        = (Inr (Some a'), st') \<and>
      findById st' 1 = Some a' \<and> status a' = Canceled) \<and>
   (\<exists>a' st'.
      cancelAppointment
          (sampleStore [sampleAppointment 1 (day0 + hm 23 0) (day0 + hm 24 0) Scheduled])
          customer3 (day0 - hm 1 0) 1 None
        = (Inr (Some a'), st') \<and>
      findById st' 1 = Some a' \<and> status a' = Canceled)"
proof -
  let ?a = "sampleAppointment 1 (day0 + hm 23 0) (day0 + hm 24 0) Scheduled"
  have f: "findById (sampleStore [?a]) 1 = Some ?a"
    by (simp add: findById_def sampleStore_def sampleAppointment_def)
  have s: "status ?a \<noteq> Canceled" by (simp add: sampleAppointment_def)
  have v: "cancelAppointmentSchema None"
    by (simp add: cancelAppointmentSchema_def whenGiven_def)
  have g: "actor_role customer3 \<noteq> Admin" "hasAccess customer3 ?a" "actor_role admin1 = Admin"
    "day0 > startTime ?a - 24 * 60 * 60 * 1000"
    "day0 - hm 1 0 \<le> startTime ?a - 24 * 60 * 60 * 1000"
    by (simp_all add: hasAccess_def sample_defs)
  note T = C5_cancellation_window [OF f s v]
  have 1: "cancelAppointment (sampleStore [?a]) customer3 day0 1 None
             = (Inl CancellationWindowExpired, sampleStore [?a])"
    using T [of customer3 day0] g by blast
  have 2: "\<exists>a' st'. cancelAppointment (sampleStore [?a]) admin1 day0 1 None = (Inr (Some a'), st') \<and>
             findById st' 1 = Some a' \<and> status a' = Canceled"
    using T [of admin1 day0] g by blast
  have 3: "\<exists>a' st'. cancelAppointment (sampleStore [?a]) customer3 (day0 - hm 1 0) 1 None
               = (Inr (Some a'), st') \<and>
             findById st' 1 = Some a' \<and> status a' = Canceled"
    using T [of customer3 "day0 - hm 1 0"] g by blast
  from f s v 1 2 3 show ?thesis by blast
qed

subsection \<open>C6: self-update\<close>

text \<open>
  Claim C6, as stated, fails for a stored appointment that is itself canceled: the
  invariant allows an active appointment on top of it, and an admin's update that re-sends
  its own times is rejected with the other appointment's interval.
\<close>

theorem C6_counterexample:
  "noDoubleBooking
     (sampleStore [sampleAppointment 1 (day0 + hm 9 0) (day0 + hm 10 0) Canceled,
                   sampleAppointment 2 (day0 + hm 9 0) (day0 + hm 10 0) Scheduled]) \<and>
   updateAppointment
       (sampleStore [sampleAppointment 1 (day0 + hm 9 0) (day0 + hm 10 0) Canceled,
                     sampleAppointment 2 (day0 + hm 9 0) (day0 + hm 10 0) Scheduled])
       admin1 day0 1
       (emptyUpdate\<lparr>u_startTime := Some (day0 + hm 9 0), u_endTime := Some (day0 + hm 10 0)\<rparr>)
     = (Inl (SchedulingConflict (day0 + hm 9 0) (day0 + hm 10 0)),
        sampleStore [sampleAppointment 1 (day0 + hm 9 0) (day0 + hm 10 0) Canceled,
                     sampleAppointment 2 (day0 + hm 9 0) (day0 + hm 10 0) Scheduled])"
  by (simp add: noDoubleBooking_def active_def spec_overlaps_def interval_def update_eval sample_defs)

text \<open>
  Claim C6, amended. The conflict query never returns the appointment whose id is excluded.
  In a store where the invariant holds, for a stored appointment whose status is not
  canceled or completed, the query for its own times and its own id excluded returns
  nothing, so the check never fails with \<open>SchedulingConflict\<close>; it returns the technician
  when the technician is active and available, and then the time block of an update that
  re-sends the existing \<open>startTime\<close> and \<open>endTime\<close> lets the update go on (for a non-admin,
  when the start is not in the past).
\<close>

theorem C6_self_update_no_conflict:
  "a \<notin> set (filter (conflictQuery tid s e (Some (appt_id a))) (appointments st)) \<and>
   (noDoubleBooking st \<and> a \<in> set (appointments st) \<and> status a \<notin> {Canceled, Completed}
      \<longrightarrow> filter (conflictQuery (technician a) (startTime a) (endTime a) (Some (appt_id a)))
                 (appointments st) = [] \<and>
          (\<forall>s' e'. checkTechnicianAvailability st (technician a) (startTime a) (endTime a)
                     (Some (appt_id a)) \<noteq> Inl (SchedulingConflict s' e')) \<and>
          (findTechnician st (technician a) = Some tech \<and> availability tech = Available
             \<longrightarrow> checkTechnicianAvailability st (technician a) (startTime a) (endTime a)
                    (Some (appt_id a)) = Inr tech \<and>
                 (u_startTime b = Some (startTime a) \<and> u_endTime b = Some (endTime a) \<and>
                  (actor_role usr = Admin \<or> now \<le> startTime a)
                    \<longrightarrow> verifyTimeFields st usr now a b = None)))"
proof (intro conjI impI)
  show "a \<notin> set (filter (conflictQuery tid s e (Some (appt_id a))) (appointments st))"
    by (simp add: conflictQuery_def)
next
  assume h: "noDoubleBooking st \<and> a \<in> set (appointments st) \<and> status a \<notin> {Canceled, Completed}"
  have none: "\<not> conflictQuery (technician a) (startTime a) (endTime a) (Some (appt_id a)) x"
    if "x \<in> set (appointments st)" for x
  proof
    assume "conflictQuery (technician a) (startTime a) (endTime a) (Some (appt_id a)) x"
    then have "technician x = technician a" "active x" "appt_id x \<noteq> appt_id a"
      "spec_overlaps (interval x) (interval a)"
      by (simp_all add: conflictQuery_overlaps interval_def)
    moreover have "active a" using h by (simp add: active_def)
    ultimately show False using h that by (auto simp: noDoubleBooking_def)
  qed
  then show e: "filter (conflictQuery (technician a) (startTime a) (endTime a) (Some (appt_id a)))
                 (appointments st) = []"
    by (simp add: filter_empty_conv)
  show "\<forall>s' e'. checkTechnicianAvailability st (technician a) (startTime a) (endTime a)
                     (Some (appt_id a)) \<noteq> Inl (SchedulingConflict s' e')"
    using none by (auto dest: checkTechnicianAvailability_conflict)
  assume t: "findTechnician st (technician a) = Some tech \<and> availability tech = Available"
  with none show c: "checkTechnicianAvailability st (technician a) (startTime a) (endTime a)
                    (Some (appt_id a)) = Inr tech"
    by (simp add: checkTechnicianAvailability_Inr_iff)
  assume "u_startTime b = Some (startTime a) \<and> u_endTime b = Some (endTime a) \<and>
                  (actor_role usr = Admin \<or> now \<le> startTime a)"
  with c show "verifyTimeFields st usr now a b = None"
    by (auto simp: verifyTimeFields_def orElse_def Let_def)
qed

theorem C6_witness:
  "noDoubleBooking
     (sampleStore [sampleAppointment 1 (day0 + hm 9 0) (day0 + hm 10 0) Scheduled,
                   sampleAppointment 2 (day0 + hm 10 0) (day0 + hm 11 0) Scheduled]) \<and>
   status (sampleAppointment 1 (day0 + hm 9 0) (day0 + hm 10 0) Scheduled) = Scheduled \<and>
   findTechnician
     (sampleStore [sampleAppointment 1 (day0 + hm 9 0) (day0 + hm 10 0) Scheduled,
                   sampleAppointment 2 (day0 + hm 10 0) (day0 + hm 11 0) Scheduled]) 7
     = Some technician7 \<and>
   availability technician7 = Available \<and>
   checkTechnicianAvailability
     (sampleStore [sampleAppointment 1 (day0 + hm 9 0) (day0 + hm 10 0) Scheduled,
                   sampleAppointment 2 (day0 + hm 10 0) (day0 + hm 11 0) Scheduled])
     7 (day0 + hm 9 0) (day0 + hm 10 0) (Some 1)
     = Inr technician7 \<and>
   verifyTimeFields
     (sampleStore [sampleAppointment 1 (day0 + hm 9 0) (day0 + hm 10 0) Scheduled,
                   sampleAppointment 2 (day0 + hm 10 0) (day0 + hm 11 0) Scheduled])
     customer3 day0 (sampleAppointment 1 (day0 + hm 9 0) (day0 + hm 10 0) Scheduled)
     (emptyUpdate\<lparr>u_startTime := Some (day0 + hm 9 0), u_endTime := Some (day0 + hm 10 0)\<rparr>)
     = None"
proof -
  let ?a = "sampleAppointment 1 (day0 + hm 9 0) (day0 + hm 10 0) Scheduled"
  let ?st = "sampleStore [?a, sampleAppointment 2 (day0 + hm 10 0) (day0 + hm 11 0) Scheduled]"
  let ?b = "emptyUpdate\<lparr>u_startTime := Some (day0 + hm 9 0), u_endTime := Some (day0 + hm 10 0)\<rparr>"
  have inv: "noDoubleBooking ?st"
    by (simp add: noDoubleBooking_def active_def spec_overlaps_def interval_def sample_defs)
  have m: "?a \<in> set (appointments ?st)" by (simp add: sampleStore_def)
  have s: "status ?a \<notin> {Canceled, Completed}" and s': "status ?a = Scheduled"
    by (simp_all add: sampleAppointment_def)
  have t: "findTechnician ?st (technician ?a) = Some technician7" "availability technician7 = Available"
    by (simp_all add: findTechnician_def sample_defs)
  have b: "u_startTime ?b = Some (startTime ?a)" "u_endTime ?b = Some (endTime ?a)"
    "day0 \<le> startTime ?a"
    by (simp_all add: sample_defs)
  have f: "technician ?a = 7" "startTime ?a = day0 + hm 9 0" "endTime ?a = day0 + hm 10 0"
    "appt_id ?a = 1"
    by (simp_all add: sampleAppointment_def)
  from C6_self_update_no_conflict [where a = ?a and st = ?st and tech = technician7
      and b = ?b and usr = customer3 and now = day0] inv m s t b
  have "checkTechnicianAvailability ?st (technician ?a) (startTime ?a) (endTime ?a)
          (Some (appt_id ?a)) = Inr technician7 \<and>
        verifyTimeFields ?st customer3 day0 ?a ?b = None"
    by blast
  with inv s' t f show ?thesis by simp
qed

subsection \<open>C7: day intersection\<close>

text \<open>
  Claim C7. For an appointment with \<open>end > start\<close> and the UTC day of any requested
  date, the three-case disjunction of the availability route's query holds if and only if
  \<open>start <= dayEnd AND end >= dayStart\<close>, so the query selects exactly the technician's
  appointments, not canceled or completed, that intersect the day; this covers appointments
  that span the whole day (the witness is one).
\<close>

theorem C7_day_fetch_equivalence:
  assumes "s < e"
  shows "(dayCases (startOfDay d) (endOfDay d) s e
            \<longleftrightarrow> spec_intersectsDay (startOfDay d) (endOfDay d) s e) \<and>
         (startTime a = s \<and> endTime a = e
            \<longrightarrow> (dayQuery tid (startOfDay d) (endOfDay d) a
                   \<longleftrightarrow> technician a = tid \<and> status a \<notin> {Canceled, Completed} \<and>
                       spec_intersectsDay (startOfDay d) (endOfDay d) s e))"
proof -
  have "dayCases (startOfDay d) (endOfDay d) s e
            \<longleftrightarrow> spec_intersectsDay (startOfDay d) (endOfDay d) s e"
    using assms startOfDay_le_endOfDay [of d]
    unfolding dayCases_def spec_intersectsDay_def by linarith
  then show ?thesis by (auto simp: dayQuery_def)
qed

theorem C7_witness:
  "day0 - hm 4 0 < day0 + hm 30 0 \<and>
   dayCases (startOfDay day0) (endOfDay day0) (day0 - hm 4 0) (day0 + hm 30 0) \<and>
   spec_intersectsDay (startOfDay day0) (endOfDay day0) (day0 - hm 4 0) (day0 + hm 30 0) \<and>
   dayQuery 7 (startOfDay day0) (endOfDay day0)
     (sampleAppointment 1 (day0 - hm 4 0) (day0 + hm 30 0) Scheduled)"
proof -
  let ?a = "sampleAppointment 1 (day0 - hm 4 0) (day0 + hm 30 0) Scheduled"
  have h: "day0 - hm 4 0 < day0 + hm 30 0" by (simp add: hm_def)
  have i: "spec_intersectsDay (startOfDay day0) (endOfDay day0) (day0 - hm 4 0) (day0 + hm 30 0)"
    by (simp add: spec_intersectsDay_def startOfDay_def endOfDay_def day0_def hm_def)
  have f: "startTime ?a = day0 - hm 4 0" "endTime ?a = day0 + hm 30 0" "technician ?a = 7"
    "status ?a \<notin> {Canceled, Completed}"
    by (simp_all add: sampleAppointment_def)
  from C7_day_fetch_equivalence [OF h, of day0 ?a 7] i f
  have "dayCases (startOfDay day0) (endOfDay day0) (day0 - hm 4 0) (day0 + hm 30 0) \<and>
        dayQuery 7 (startOfDay day0) (endOfDay day0) ?a"
    by blast
  with h i show ?thesis by simp
qed

subsection \<open>C8: duration derivation\<close>

text \<open>
  Claim C8. When a create request supplies no \<open>estimatedDuration\<close> and is persisted (so
  it passed the conflict check), the stored appointment's \<open>estimatedDuration\<close> is
  \<open>round((endTime - startTime) / 60000)\<close>, the interval length in minutes. The instance
  below: 09:00 to 10:30 on 2024-01-01 gives 90.
\<close>

theorem C8_duration_derivation:
  assumes "c_estimatedDuration b = None"
    and "createAppointment st usr now b = (Inr a, st')"
  shows "estimatedDuration a
           = Some (real_of_int (round (real_of_int (c_endTime b - c_startTime b) / 60000))) \<and>
         a \<in> set (appointments st') \<and> startTime a = c_startTime b \<and> endTime a = c_endTime b"
  using assms
  by (simp add: createAppointment_Inr_iff newAppointment_def createDuration_def
      durationMinutes_def Math_round_round)

theorem C8_witness:
  "c_estimatedDuration (sampleCreate (day0 + hm 9 0) (day0 + hm 10 30) None) = None \<and>
   createAppointment (sampleStore []) customer3 day0
       (sampleCreate (day0 + hm 9 0) (day0 + hm 10 30) None)
     = (Inr (newAppointment 1 customer3 (sampleCreate (day0 + hm 9 0) (day0 + hm 10 30) None)),
        sampleStore [newAppointment 1 customer3
                       (sampleCreate (day0 + hm 9 0) (day0 + hm 10 30) None)]) \<and>
   estimatedDuration
       (newAppointment 1 customer3 (sampleCreate (day0 + hm 9 0) (day0 + hm 10 30) None))
     = Some 90"
proof -
  let ?b = "sampleCreate (day0 + hm 9 0) (day0 + hm 10 30) None"
  have n: "c_estimatedDuration ?b = None" by (simp add: sampleCreate_def)
  have c: "createAppointment (sampleStore []) customer3 day0 ?b
     = (Inr (newAppointment 1 customer3 ?b), sampleStore [newAppointment 1 customer3 ?b])"
    by (simp add: create_eval sample_defs)
  from C8_duration_derivation [OF n c]
  have "estimatedDuration (newAppointment 1 customer3 ?b)
          = Some (real_of_int (round (real_of_int (c_endTime ?b - c_startTime ?b) / 60000)))"
    by simp
  also have "real_of_int (c_endTime ?b - c_startTime ?b) / 60000 = 90"
    by (simp add: sampleCreate_def hm_def)
  finally show ?thesis using n c by simp
qed

subsection \<open>C9: cancelling twice\<close>

text \<open>
  Claim C9, as stated, fails for an actor without access: a customer who is not the client
  of the canceled appointment gets \<open>AccessDenied\<close>, not \<open>AlreadyCanceled\<close>.
\<close>

theorem C9_counterexample:
  "status (sampleAppointment 1 (day0 + hm 48 0) (day0 + hm 49 0) Canceled) = Canceled \<and>
   cancelAppointment (sampleStore [sampleAppointment 1 (day0 + hm 48 0) (day0 + hm 49 0) Canceled])
       customer4 day0 1 None
     = (Inl AccessDenied,
        sampleStore [sampleAppointment 1 (day0 + hm 48 0) (day0 + hm 49 0) Canceled])"
  by (simp add: cancel_eval sample_defs)

text \<open>
  Claim C9, amended. A cancel request on an appointment that is already canceled always
  fails and leaves the store unchanged; when the request is schema-valid and the actor is
  an admin, the client or the technician, the failure is \<open>AlreadyCanceled\<close>. So after a
  cancel has succeeded, a second cancel of the same appointment by any such actor is
  rejected with \<open>AlreadyCanceled\<close>.
\<close>

theorem C9_already_canceled:
  "(findById st i = Some a \<and> status a = Canceled
      \<longrightarrow> isl (fst (cancelAppointment st usr now i reason)) \<and>
          snd (cancelAppointment st usr now i reason) = st \<and>
          (cancelAppointmentSchema reason \<and> hasAccess usr a
             \<longrightarrow> cancelAppointment st usr now i reason = (Inl AlreadyCanceled, st))) \<and>
   (findById st i = Some a \<and> cancelAppointment st usr now i reason = (Inr r, st') \<and>
    cancelAppointmentSchema reason' \<and> hasAccess usr' a
      \<longrightarrow> cancelAppointment st' usr' now' i reason' = (Inl AlreadyCanceled, st'))"
proof (intro conjI impI)
  assume h: "findById st i = Some a \<and> status a = Canceled"
  then show "isl (fst (cancelAppointment st usr now i reason))"
    and "snd (cancelAppointment st usr now i reason) = st"
    by (simp_all add: cancelAppointment_def)
  assume "cancelAppointmentSchema reason \<and> hasAccess usr a"
  with h show "cancelAppointment st usr now i reason = (Inl AlreadyCanceled, st)"
    by (simp add: cancelAppointment_def)
next
  assume h: "findById st i = Some a \<and> cancelAppointment st usr now i reason = (Inr r, st') \<and>
    cancelAppointmentSchema reason' \<and> hasAccess usr' a"
  then have f: "findById st i = Some a"
    and c: "cancelAppointment st usr now i reason = (Inr r, st')"
    and v': "cancelAppointmentSchema reason'" and acc: "hasAccess usr' a"
    by simp_all
  from c f have pre: "cancelAppointmentSchema reason" "hasAccess usr a" "status a \<noteq> Canceled"
    "actor_role usr = Admin \<or> now \<le> startTime a - 24 * 60 * 60 * 1000"
    by (auto simp: cancelAppointment_def Let_def split: if_splits)
  from cancelAppointment_write [OF f pre] c
  obtain a' where f': "findById st' i = Some a'" and s': "status a' = Canceled"
    and same: "client a' = client a" "technician a' = technician a"
    by auto
  from acc same have "hasAccess usr' a'" by (simp add: hasAccess_def)
  with f' s' v' show "cancelAppointment st' usr' now' i reason' = (Inl AlreadyCanceled, st')"
    by (simp add: cancelAppointment_def)
qed

theorem C9_witness:
  "findById (sampleStore [sampleAppointment 1 (day0 + hm 48 0) (day0 + hm 49 0) Canceled]) 1
     = Some (sampleAppointment 1 (day0 + hm 48 0) (day0 + hm 49 0) Canceled) \<and>
   status (sampleAppointment 1 (day0 + hm 48 0) (day0 + hm 49 0) Canceled) = Canceled \<and>
   cancelAppointment (sampleStore [sampleAppointment 1 (day0 + hm 48 0) (day0 + hm 49 0) Canceled])
       customer3 day0 1 None
     = (Inl AlreadyCanceled,
        sampleStore [sampleAppointment 1 (day0 + hm 48 0) (day0 + hm 49 0) Canceled]) \<and>
   cancelAppointment (sampleStore [sampleAppointment 1 (day0 + hm 48 0) (day0 + hm 49 0) Canceled])
       admin1 day0 1 None
     = (Inl AlreadyCanceled,
        sampleStore [sampleAppointment 1 (day0 + hm 48 0) (day0 + hm 49 0) Canceled]) \<and>
   cancelAppointment
       (snd (cancelAppointment
               (sampleStore [sampleAppointment 1 (day0 + hm 48 0) (day0 + hm 49 0) Scheduled])
               customer3 day0 1 None))
       admin1 day0 1 None
     = (Inl AlreadyCanceled,
        snd (cancelAppointment
               (sampleStore [sampleAppointment 1 (day0 + hm 48 0) (day0 + hm 49 0) Scheduled])
               customer3 day0 1 None))"
proof -
  let ?a = "sampleAppointment 1 (day0 + hm 48 0) (day0 + hm 49 0) Canceled"
  let ?s = "sampleAppointment 1 (day0 + hm 48 0) (day0 + hm 49 0) Scheduled"
  have f: "findById (sampleStore [?a]) 1 = Some ?a"
    by (simp add: findById_def sampleStore_def sampleAppointment_def)
  have c: "status ?a = Canceled" by (simp add: sampleAppointment_def)
  have v: "cancelAppointmentSchema None"
    by (simp add: cancelAppointmentSchema_def whenGiven_def)
  have g: "hasAccess customer3 ?a" "hasAccess admin1 ?a" "hasAccess admin1 ?s"
    by (simp_all add: hasAccess_def sample_defs)
  have 1: "cancelAppointment (sampleStore [?a]) customer3 day0 1 None
             = (Inl AlreadyCanceled, sampleStore [?a])"
    using C9_already_canceled [where st = "sampleStore [?a]" and i = 1 and a = ?a
        and usr = customer3 and now = day0 and reason = None] f c v g
    by blast
  have 2: "cancelAppointment (sampleStore [?a]) admin1 day0 1 None
             = (Inl AlreadyCanceled, sampleStore [?a])"
    using C9_already_canceled [where st = "sampleStore [?a]" and i = 1 and a = ?a
        and usr = admin1 and now = day0 and reason = None] f c v g
    by blast
  have fs: "findById (sampleStore [?s]) 1 = Some ?s"
    by (simp add: findById_def sampleStore_def sampleAppointment_def)
  obtain r st' where first: "cancelAppointment (sampleStore [?s]) customer3 day0 1 None = (Inr r, st')"
    by (simp add: cancel_eval sample_defs)
  have 3: "cancelAppointment st' admin1 day0 1 None = (Inl AlreadyCanceled, st')"
    using C9_already_canceled [where st = "sampleStore [?s]" and i = 1 and a = ?s
        and usr = customer3 and now = day0 and reason = None and r = r and st' = st'
        and reason' = None and usr' = admin1 and now' = day0] fs first v g
    by blast
  from f c 1 2 3 first show ?thesis by simp
qed

subsection \<open>C10: bound on the derived duration\<close>

text \<open>
  Claim C10, as stated, fails at the end of its sentence: an appointment shorter than 15
  minutes can be created without an \<open>estimatedDuration\<close>. An interval of 14 min 30 s
  rounds to 15 minutes and is persisted.
\<close>

theorem C10_counterexample:
  "c_estimatedDuration (sampleCreate (day0 + hm 9 0) (day0 + hm 9 0 + 870000) None) = None \<and>
   c_endTime (sampleCreate (day0 + hm 9 0) (day0 + hm 9 0 + 870000) None)
     - c_startTime (sampleCreate (day0 + hm 9 0) (day0 + hm 9 0 + 870000) None)
     < 15 * 60 * 1000 \<and>
   createAppointment (sampleStore []) customer3 day0
       (sampleCreate (day0 + hm 9 0) (day0 + hm 9 0 + 870000) None)
     = (Inr (newAppointment 1 customer3
               (sampleCreate (day0 + hm 9 0) (day0 + hm 9 0 + 870000) None)),
        sampleStore [newAppointment 1 customer3
                       (sampleCreate (day0 + hm 9 0) (day0 + hm 9 0 + 870000) None)]) \<and>
   estimatedDuration
       (newAppointment 1 customer3 (sampleCreate (day0 + hm 9 0) (day0 + hm 9 0 + 870000) None))
     = Some 15"
  by (simp add: create_eval sample_defs)

text \<open>
  Claim C10, amended. A create request without \<open>estimatedDuration\<close> whose interval
  length rounds to fewer than 15 or more than 480 minutes fails and leaves the store
  unchanged; when it passed authorization, request validation and the conflict check, the
  failure is the persistence validation. So an appointment whose length rounds outside
  15..480 minutes is created only with a supplied \<open>estimatedDuration\<close> in 15..480.
\<close>

theorem C10_derived_duration_bound:
  "(c_estimatedDuration b = None \<and>
    (durationMinutes (c_startTime b) (c_endTime b) < 15 \<or>
     durationMinutes (c_startTime b) (c_endTime b) > 480)
    \<longrightarrow> isl (fst (createAppointment st usr now b)) \<and>
        snd (createAppointment st usr now b) = st \<and>
        (actor_role usr \<in> {Customer, Admin} \<and> createAppointmentSchema now b \<and>
         checkTechnicianAvailability st (c_technicianId b) (c_startTime b) (c_endTime b) None
           = Inr tech
         \<longrightarrow> createAppointment st usr now b = (Inl PersistenceValidation, st))) \<and>
   (createAppointment st usr now b = (Inr a, st') \<and>
    (durationMinutes (c_startTime b) (c_endTime b) < 15 \<or>
     durationMinutes (c_startTime b) (c_endTime b) > 480)
    \<longrightarrow> (\<exists>d. c_estimatedDuration b = Some d \<and> 15 \<le> d \<and> d \<le> 480))"
proof (intro conjI impI)
  assume h: "c_estimatedDuration b = None \<and>
    (durationMinutes (c_startTime b) (c_endTime b) < 15 \<or>
     durationMinutes (c_startTime b) (c_endTime b) > 480)"
  have nv: "\<not> validateNew (newAppointment i usr b)" for i
    using h
    by (auto simp: validateNew_def estimatedDurationValidator_def whenGiven_def
        newAppointment_def createDuration_def)
  show "isl (fst (createAppointment st usr now b))"
    using nv by (auto simp: createAppointment_def Let_def split: sum.splits)
  show "snd (createAppointment st usr now b) = st"
    using nv by (auto simp: createAppointment_def Let_def split: sum.splits)
  assume "actor_role usr \<in> {Customer, Admin} \<and> createAppointmentSchema now b \<and>
         checkTechnicianAvailability st (c_technicianId b) (c_startTime b) (c_endTime b) None
           = Inr tech"
  then show "createAppointment st usr now b = (Inl PersistenceValidation, st)"
    using nv by (auto simp: createAppointment_def Let_def)
next
  assume h: "createAppointment st usr now b = (Inr a, st') \<and>
    (durationMinutes (c_startTime b) (c_endTime b) < 15 \<or>
     durationMinutes (c_startTime b) (c_endTime b) > 480)"
  then have v: "validateNew (newAppointment (newObjectId (appointments st)) usr b)"
    and j: "createAppointmentSchema now b"
    by (auto simp: createAppointment_Inr_iff)
  show "\<exists>d. c_estimatedDuration b = Some d \<and> 15 \<le> d \<and> d \<le> 480"
  proof (cases "c_estimatedDuration b")
    case None
    with h v show ?thesis
      by (auto simp: validateNew_def estimatedDurationValidator_def whenGiven_def
          newAppointment_def createDuration_def)
  next
    case (Some d)
    with j show ?thesis
      by (simp add: createAppointmentSchema_def whenGiven_def joiNumber_def)
  qed
qed

theorem C10_witness:
  "c_estimatedDuration (sampleCreate (day0 + hm 9 0) (day0 + hm 9 10) None) = None \<and>
   durationMinutes (c_startTime (sampleCreate (day0 + hm 9 0) (day0 + hm 9 10) None))
                   (c_endTime (sampleCreate (day0 + hm 9 0) (day0 + hm 9 10) None)) < 15 \<and>
   createAppointment (sampleStore []) customer3 day0
       (sampleCreate (day0 + hm 9 0) (day0 + hm 9 10) None)
     = (Inl PersistenceValidation, sampleStore []) \<and>
   durationMinutes (c_startTime (sampleCreate (day0 + hm 9 0) (day0 + hm 18 0) (Some 60)))
                   (c_endTime (sampleCreate (day0 + hm 9 0) (day0 + hm 18 0) (Some 60))) > 480 \<and>
   createAppointment (sampleStore []) customer3 day0
       (sampleCreate (day0 + hm 9 0) (day0 + hm 18 0) (Some 60))
     = (Inr (newAppointment 1 customer3
               (sampleCreate (day0 + hm 9 0) (day0 + hm 18 0) (Some 60))),
        sampleStore [newAppointment 1 customer3
                       (sampleCreate (day0 + hm 9 0) (day0 + hm 18 0) (Some 60))]) \<and>
   (\<exists>d. c_estimatedDuration (sampleCreate (day0 + hm 9 0) (day0 + hm 18 0) (Some 60)) = Some d \<and>
        15 \<le> d \<and> d \<le> 480)"
proof -
  let ?b1 = "sampleCreate (day0 + hm 9 0) (day0 + hm 9 10) None"
  let ?b2 = "sampleCreate (day0 + hm 9 0) (day0 + hm 18 0) (Some 60)"
  have n: "c_estimatedDuration ?b1 = None" by (simp add: sampleCreate_def)
  have d1: "durationMinutes (c_startTime ?b1) (c_endTime ?b1) < 15"
    by (simp add: durationMinutes_div sampleCreate_def hm_def)
  have g: "actor_role customer3 \<in> {Customer, Admin}" "createAppointmentSchema day0 ?b1"
    "checkTechnicianAvailability (sampleStore []) (c_technicianId ?b1) (c_startTime ?b1)
       (c_endTime ?b1) None = Inr technician7"
    by (simp_all add: create_eval sample_defs)
  have d2: "durationMinutes (c_startTime ?b2) (c_endTime ?b2) > 480"
    by (simp add: durationMinutes_div sampleCreate_def hm_def)
  have c2: "createAppointment (sampleStore []) customer3 day0 ?b2
     = (Inr (newAppointment 1 customer3 ?b2), sampleStore [newAppointment 1 customer3 ?b2])"
    by (simp add: create_eval sample_defs)
  have r1: "createAppointment (sampleStore []) customer3 day0 ?b1
              = (Inl PersistenceValidation, sampleStore [])"
    using C10_derived_duration_bound [where b = ?b1 and st = "sampleStore []"
        and usr = customer3 and now = day0 and tech = technician7] n d1 g
    by blast
  have r2: "\<exists>d. c_estimatedDuration ?b2 = Some d \<and> 15 \<le> d \<and> d \<le> 480"
    using C10_derived_duration_bound [where b = ?b2 and st = "sampleStore []"
        and usr = customer3 and now = day0
        and a = "newAppointment 1 customer3 ?b2"
        and st' = "sampleStore [newAppointment 1 customer3 ?b2]"] d2 c2
    by blast
  from n d1 r1 d2 c2 r2 show ?thesis by blast
qed

end
